theory Spec2Isabelle
  imports Main "HOL-Library.AList" "HOL-Library.Char_ord" "HOL-Library.List_Lexorder"
    "HOL-Library.Multiset"
begin

unbundle bit_operations_syntax

section \<open>Python values, strings and dictionaries\<close>

text \<open>
  The routers move rows of a PostgreSQL view into Django model instances. A column value is
  \<^verbatim>\<open>None\<close>, a \<^verbatim>\<open>bool\<close>, an \<^verbatim>\<open>int\<close> or a \<^verbatim>\<open>str\<close>. A Python string
  is modelled as a \<^typ>\<open>string\<close> whose characters are the code points below 256. Dictionary
  keys are compared with HOL equality; the identifiers of the routers are integers and strings,
  for which this is Python's \<^verbatim>\<open>==\<close>.
\<close>

datatype pyval = PNone | PBool bool | PInt int | PStr string

type_synonym row = "(string \<times> pyval) list"

text \<open>The exceptions of the Django database layer that the routers catch, with \<^verbatim>\<open>str(e)\<close>.\<close>

datatype db_error = DataError string | IntegrityError string

datatype exn =
    KeyError string
  | TypeError
  | UnboundLocalError string
  | AttributeError string
  | SystemExit int
  | ConnectError string

datatype 'a outcome = Return 'a | Raise exn

datatype level = DEBUG | INFO | ERROR | CRITICAL

type_synonym logline = "level \<times> string"

subsection \<open>\<^verbatim>\<open>str\<close>, \<^verbatim>\<open>repr\<close>, \<^verbatim>\<open>lower\<close>, \<^verbatim>\<open>encode\<close>\<close>

fun digits :: "nat \<Rightarrow> string" where
  "digits n = (if n < 10 then [char_of (48 + n)] else digits (n div 10) @ [char_of (48 + n mod 10)])"

declare digits.simps [simp del]

definition str_int :: "int \<Rightarrow> string" where
  "str_int i = (if i < 0 then CHR ''-'' # digits (nat (- i)) else digits (nat i))"

definition hexdigit :: "nat \<Rightarrow> char" where
  "hexdigit n = (if n < 10 then char_of (48 + n) else char_of (87 + n))"

definition printable :: "char \<Rightarrow> bool" where
  \<comment> \<open>\<^verbatim>\<open>str.isprintable\<close> on the code points below 256\<close>
  "printable c = (let n = (of_char c :: nat) in
     (32 \<le> n \<and> n < 127) \<or> (161 \<le> n \<and> n \<noteq> 173))"

definition repr_char :: "char \<Rightarrow> char \<Rightarrow> string" where
  "repr_char quote c =
     (if c = quote \<or> c = CHR 0x5C then [CHR 0x5C, c]
      else if c = CHR 0x09 then [CHR 0x5C, CHR ''t'']
      else if c = CHR 0x0A then [CHR 0x5C, CHR ''n'']
      else if c = CHR 0x0D then [CHR 0x5C, CHR ''r'']
      else if printable c then [c]
      else [CHR 0x5C, CHR ''x'', hexdigit (of_char c div 16), hexdigit (of_char c mod 16)])"

definition repr_str :: "string \<Rightarrow> string" where
  "repr_str s =
     (let quote = (if CHR 0x27 \<in> set s \<and> CHR 0x22 \<notin> set s then CHR 0x22 else CHR 0x27)
      in [quote] @ concat (map (repr_char quote) s) @ [quote])"

fun py_str :: "pyval \<Rightarrow> string" where
  "py_str PNone = ''None''"
| "py_str (PBool b) = (if b then ''True'' else ''False'')"
| "py_str (PInt i) = str_int i"
| "py_str (PStr s) = s"

fun py_repr :: "pyval \<Rightarrow> string" where
  "py_repr (PStr s) = repr_str s"
| "py_repr v = py_str v"

definition lower_char :: "char \<Rightarrow> char" where
  "lower_char c = (let n = (of_char c :: nat) in
     if (65 \<le> n \<and> n \<le> 90) \<or> (192 \<le> n \<and> n \<le> 222 \<and> n \<noteq> 215) then char_of (n + 32) else c)"

definition lower :: "string \<Rightarrow> string" where
  "lower s = map lower_char s"

definition encode_UTF8 :: "string \<Rightarrow> int list" where
  "encode_UTF8 s = concat (map (\<lambda>c. let n = (of_char c :: int) in
       if n < 128 then [n] else [192 + n div 64, 128 + n mod 64]) s)"

subsection \<open>Dictionaries\<close>

text \<open>
  A \<^verbatim>\<open>dict\<close> is an association list in insertion order with distinct keys:
  \<^const>\<open>map_of\<close> reads it, \<^const>\<open>AList.update\<close> assigns (in place for an existing key,
  at the end for a new one) and \<^const>\<open>AList.delete\<close> removes a key.
\<close>

definition dict_zip :: "'k list \<Rightarrow> 'v list \<Rightarrow> ('k \<times> 'v) list" where
  \<comment> \<open>\<^verbatim>\<open>dict(zip(COLS, row))\<close>\<close>
  "dict_zip ks vs = foldl (\<lambda>d (k, v). AList.update k v d) [] (zip ks vs)"

definition getitem :: "row \<Rightarrow> string \<Rightarrow> pyval outcome" where
  \<comment> \<open>\<^verbatim>\<open>d[k]\<close>\<close>
  "getitem d k = (case map_of d k of None \<Rightarrow> Raise (KeyError k) | Some v \<Rightarrow> Return v)"

definition str_dict :: "row \<Rightarrow> string" where
  \<comment> \<open>\<^verbatim>\<open>str(d)\<close> of a dictionary with string keys\<close>
  "str_dict d =
     ''{'' @ concat (map (\<lambda>(i, (k, v)). (if i = 0 then [] else '', '') @ repr_str k @ '': '' @ py_repr v)
                         (zip [0..<length d] d)) @ ''}''"

definition sorted_items :: "row \<Rightarrow> row" where
  \<comment> \<open>\<^verbatim>\<open>{k:v for k,v in sorted(d.items())}\<close>: the keys of a dictionary are distinct, so the
      tuples are ordered by their keys alone\<close>
  "sorted_items d = sort_key fst d"

section \<open>MD5 (RFC 1321), on 32-bit words as integers modulo \<open>2^32\<close>\<close>

definition md5_s :: "nat list" where
  "md5_s = [7, 12, 17, 22, 7, 12, 17, 22, 7, 12, 17, 22, 7, 12, 17, 22,
            5, 9, 14, 20, 5, 9, 14, 20, 5, 9, 14, 20, 5, 9, 14, 20,
            4, 11, 16, 23, 4, 11, 16, 23, 4, 11, 16, 23, 4, 11, 16, 23,
            6, 10, 15, 21, 6, 10, 15, 21, 6, 10, 15, 21, 6, 10, 15, 21]"

definition md5_K :: "int list" where
  "md5_K = [0xd76aa478, 0xe8c7b756, 0x242070db, 0xc1bdceee,
            0xf57c0faf, 0x4787c62a, 0xa8304613, 0xfd469501,
            0x698098d8, 0x8b44f7af, 0xffff5bb1, 0x895cd7be,
            0x6b901122, 0xfd987193, 0xa679438e, 0x49b40821,
            0xf61e2562, 0xc040b340, 0x265e5a51, 0xe9b6c7aa,
            0xd62f105d, 0x02441453, 0xd8a1e681, 0xe7d3fbc8,
            0x21e1cde6, 0xc33707d6, 0xf4d50d87, 0x455a14ed,
            0xa9e3e905, 0xfcefa3f8, 0x676f02d9, 0x8d2a4c8a,
            0xfffa3942, 0x8771f681, 0x6d9d6122, 0xfde5380c,
            0xa4beea44, 0x4bdecfa9, 0xf6bb4b60, 0xbebfbc70,
            0x289b7ec6, 0xeaa127fa, 0xd4ef3085, 0x04881d05,
            0xd9d4d039, 0xe6db99e5, 0x1fa27cf8, 0xc4ac5665,
            0xf4292244, 0x432aff97, 0xab9423a7, 0xfc93a039,
            0x655b59c3, 0x8f0ccc92, 0xffeff47d, 0x85845dd1,
            0x6fa87e4f, 0xfe2ce6e0, 0xa3014314, 0x4e0811a1,
            0xf7537e82, 0xbd3af235, 0x2ad7d2bb, 0xeb86d391]"

definition w32 :: "int \<Rightarrow> int" where
  "w32 x = x mod 4294967296"

definition not32 :: "int \<Rightarrow> int" where
  "not32 x = 4294967295 - x"

definition rotl32 :: "nat \<Rightarrow> int \<Rightarrow> int" where
  "rotl32 n x = w32 (x * 2 ^ n) + x div 2 ^ (32 - n)"

fun le_bytes :: "nat \<Rightarrow> int \<Rightarrow> int list" where
  "le_bytes 0 v = []"
| "le_bytes (Suc n) v = v mod 256 # le_bytes n (v div 256)"

definition md5_pad :: "int list \<Rightarrow> int list" where
  "md5_pad m = m @ [128] @ replicate ((119 - length m mod 64) mod 64) 0
                 @ le_bytes 8 ((8 * int (length m)) mod 18446744073709551616)"

fun le_word :: "int list \<Rightarrow> int" where
  "le_word [] = 0"
| "le_word (b # bs) = b + 256 * le_word bs"

fun chunk_words :: "nat \<Rightarrow> int list \<Rightarrow> int list" where
  "chunk_words 0 bs = []"
| "chunk_words (Suc n) bs = le_word (take 4 bs) # chunk_words n (drop 4 bs)"

definition md5_F :: "nat \<Rightarrow> int \<Rightarrow> int \<Rightarrow> int \<Rightarrow> int" where
  "md5_F i B C D =
     (if i < 16 then (B AND C) OR (not32 B AND D)
      else if i < 32 then (D AND B) OR (not32 D AND C)
      else if i < 48 then B XOR C XOR D
      else C XOR (B OR not32 D))"

definition md5_g :: "nat \<Rightarrow> nat" where
  "md5_g i =
     (if i < 16 then i
      else if i < 32 then (5 * i + 1) mod 16
      else if i < 48 then (3 * i + 5) mod 16
      else (7 * i) mod 16)"

definition md5_round :: "int list \<Rightarrow> int \<times> int \<times> int \<times> int \<Rightarrow> nat \<Rightarrow> int \<times> int \<times> int \<times> int" where
  "md5_round M st i =
     (case st of (A, B, C, D) \<Rightarrow>
        let F = w32 (md5_F i B C D + A + md5_K ! i + M ! md5_g i)
        in (D, w32 (B + rotl32 (md5_s ! i) F), B, C))"

definition md5_chunk :: "int \<times> int \<times> int \<times> int \<Rightarrow> int list \<Rightarrow> int \<times> int \<times> int \<times> int" where
  "md5_chunk st bs =
     (case st of (a0, b0, c0, d0) \<Rightarrow>
        (case foldl (md5_round (chunk_words 16 bs)) st [0..<64] of
           (A, B, C, D) \<Rightarrow> (w32 (a0 + A), w32 (b0 + B), w32 (c0 + C), w32 (d0 + D))))"

fun md5_chunks :: "nat \<Rightarrow> int \<times> int \<times> int \<times> int \<Rightarrow> int list \<Rightarrow> int \<times> int \<times> int \<times> int" where
  "md5_chunks 0 st bs = st"
| "md5_chunks (Suc n) st bs = md5_chunks n (md5_chunk st (take 64 bs)) (drop 64 bs)"

definition md5 :: "int list \<Rightarrow> int list" where
  \<comment> \<open>\<^verbatim>\<open>hashlib.md5(m).digest()\<close>\<close>
  "md5 m =
     (let p = md5_pad m in
      case md5_chunks (length p div 64) (0x67452301, 0xefcdab89, 0x98badcfe, 0x10325476) p of
        (a, b, c, d) \<Rightarrow> concat (map (le_bytes 4) [a, b, c, d]))"

section \<open>The content digest\<close>

definition is_none_str :: "pyval \<Rightarrow> bool" where
  \<comment> \<open>\<^verbatim>\<open>isinstance(v, str) and v.lower() == 'none'\<close>\<close>
  "is_none_str v = (case v of PStr s \<Rightarrow> lower s = ''none'' | _ \<Rightarrow> False)"

definition strdict :: "row \<Rightarrow> int list" where
  \<comment> \<open>\<^verbatim>\<open>sdict = {k:v for k,v in sorted(d.items())}; strdict = str(sdict).encode('UTF-8')\<close>\<close>
  "strdict d = encode_UTF8 (str_dict (sorted_items d))"

definition new_digest :: "row \<Rightarrow> int list" where
  \<comment> \<open>the digest of a source record (\<^verbatim>\<open>Store_Destination\<close>, second loop)\<close>
  "new_digest nitem = md5 (strdict nitem)"

definition cur_normalize :: "row \<Rightarrow> row" where
  \<comment> \<open>\<^verbatim>\<open>for i in xdict: if isinstance(xdict[i], str) and xdict[i].lower() == 'none': xdict[i] = None\<close>\<close>
  "cur_normalize xdict = map (\<lambda>(i, v). (i, if is_none_str v then PNone else v)) xdict"

definition cur_digest :: "row \<Rightarrow> int list" where
  \<comment> \<open>the digest of a destination record, from \<^verbatim>\<open>xdict = model_to_dict(item)\<close>
      (\<^verbatim>\<open>Store_Destination\<close>, first loop)\<close>
  "cur_digest xdict = md5 (strdict (cur_normalize xdict))"


section \<open>The source store and the destination store\<close>

text \<open>
  What \<^verbatim>\<open>cursor.execute(sql)\<close> followed by \<^verbatim>\<open>cursor.description\<close> and
  \<^verbatim>\<open>cursor.fetchall()\<close> gives: a \<^verbatim>\<open>psycopg2.Error\<close> with its \<^verbatim>\<open>pgcode\<close> and
  \<^verbatim>\<open>pgerror\<close>, or the column names and the rows.
\<close>

datatype query_result = QueryError string string | QueryRows "string list" "pyval list list"

text \<open>
  The destination table is an association list from the primary key to
  \<^verbatim>\<open>model_to_dict(item)\<close>, in the order in which \<^verbatim>\<open>objects.all()\<close> yields the items.
  The Django models are not part of the routers, so the object-relational layer is a
  parameter: which writes raise \<^verbatim>\<open>DataError\<close> or \<^verbatim>\<open>IntegrityError\<close> (given the table, the
  key and the field values), which dictionary \<^verbatim>\<open>model_to_dict\<close> returns for an
  instance written with a key and field values, and what the attribute
  \<^verbatim>\<open>field_of_science_id\<close> of an instance reads after its \<^verbatim>\<open>delete()\<close> (Django sets the
  primary key of a deleted instance to \<^verbatim>\<open>None\<close>).
\<close>

type_synonym table = "(pyval \<times> row) list"

record orm =
  update_or_create_raises :: "table \<Rightarrow> pyval \<Rightarrow> row \<Rightarrow> db_error option"
  save_raises :: "table \<Rightarrow> pyval \<Rightarrow> row \<Rightarrow> db_error option"
  delete_raises :: "table \<Rightarrow> pyval \<Rightarrow> db_error option"
  model_to_dict :: "pyval \<Rightarrow> row \<Rightarrow> row"
  id_after_delete :: "pyval \<Rightarrow> pyval"

fun type_name :: "db_error \<Rightarrow> string" where
  \<comment> \<open>\<^verbatim>\<open>type(e).__name__\<close>\<close>
  "type_name (DataError m) = ''DataError''"
| "type_name (IntegrityError m) = ''IntegrityError''"

fun str_e :: "db_error \<Rightarrow> string" where
  \<comment> \<open>\<^verbatim>\<open>str(e)\<close>\<close>
  "str_e (DataError m) = m"
| "str_e (IntegrityError m) = m"

text \<open>How one pass of a loop body ends: the loop goes on, the function returns, or an
  exception that no handler of the function catches leaves it.\<close>

datatype flow = Next | Ret "bool \<times> string" | Exc exn

definition inc :: "(string \<Rightarrow> nat) \<Rightarrow> string \<Rightarrow> (string \<Rightarrow> nat)" where
  \<comment> \<open>\<^verbatim>\<open>Counter.update({k})\<close>\<close>
  "inc c k = c(k := c k + 1)"

section \<open>\<^verbatim>\<open>router_accessdb-fos.py\<close>\<close>

record fos_state =
  db :: table
  STATS :: "string \<Rightarrow> nat"
  logger :: "logline list"

subsection \<open>\<^verbatim>\<open>Connect_Source\<close>\<close>

definition find_chr :: "string \<Rightarrow> char \<Rightarrow> int" where
  \<comment> \<open>\<^verbatim>\<open>s.find(c)\<close>\<close>
  "find_chr s c = (let n = length (takeWhile (\<lambda>x. x \<noteq> c) s) in if n = length s then - 1 else int n)"

definition url_not_valid :: "bool \<Rightarrow> unit outcome \<times> logline list" where
  \<comment> \<open>\<^verbatim>\<open>self.logger.error('Retrieve URL is not valid')\<close>, then \<^verbatim>\<open>self.exit(1)\<close>, which logs, in
      the fields-of-science router and \<^verbatim>\<open>sys.exit(1)\<close> in the other two\<close>
  "url_not_valid self_exit =
     (Raise (SystemExit 1),
      (ERROR, ''Retrieve URL is not valid'') # (if self_exit then [(ERROR, ''Exiting with rc=1'')] else []))"

definition Connect_Source ::
  "bool \<Rightarrow> (string \<Rightarrow> exn option) \<Rightarrow> string \<Rightarrow> string \<Rightarrow> string \<Rightarrow> unit outcome \<times> logline list" where
  \<comment> \<open>\<^verbatim>\<open>psycopg2.connect\<close> and the configured user and password are parameters; the result
      \<^verbatim>\<open>Return ()\<close> stands for the open cursor\<close>
  "Connect_Source self_exit connect DBUSER DBPASS url =
     (let idx = find_chr url CHR '':'' in
      if idx \<le> 0 then url_not_valid self_exit
      else let type = take (nat idx) url; obj = drop (nat idx + 1) url in
        if type \<noteq> ''postgresql'' then url_not_valid self_exit
        else if take 2 obj \<noteq> ''//'' then url_not_valid self_exit
        else let obj = drop 2 obj; idx = find_chr obj CHR ''/'' in
          if idx \<le> 0 then url_not_valid self_exit
          else let host = take (nat idx) obj; path = drop (nat idx + 1) obj;
                   idx = find_chr host CHR '':'';
                   port = (if idx > 0 then drop (nat idx + 1) host else ''5432'');
                   host = (if idx > 0 then take (nat idx) host else host);
                   conn_string = ''host='' @ [CHR 0x27] @ host @ [CHR 0x27] @ '' port='' @ [CHR 0x27] @ port
                     @ [CHR 0x27] @ '' dbname='' @ [CHR 0x27] @ path @ [CHR 0x27] @ '' user='' @ [CHR 0x27]
                     @ DBUSER @ [CHR 0x27] @ '' password='' @ [CHR 0x27] @ DBPASS @ [CHR 0x27]
               in case connect conn_string of
                    Some e \<Rightarrow> (Raise e, [])
                  | None \<Rightarrow> (Return (), [(INFO, ''Connected to PostgreSQL database '' @ path @ '' as '' @ DBUSER)]))"

subsection \<open>\<^verbatim>\<open>Retrieve_Source\<close>\<close>

fun for_rows :: "('a \<Rightarrow> 'r \<Rightarrow> 'a outcome) \<Rightarrow> 'a \<Rightarrow> 'r list \<Rightarrow> 'a outcome" where
  \<comment> \<open>\<^verbatim>\<open>for row in cursor.fetchall()\<close>, with the dictionary that the body fills\<close>
  "for_rows body acc [] = Return acc"
| "for_rows body acc (r # rs) =
     (case body acc r of Raise e \<Rightarrow> Raise e | Return acc' \<Rightarrow> for_rows body acc' rs)"

definition query_failed :: "string \<Rightarrow> string \<Rightarrow> string \<Rightarrow> logline" where
  \<comment> \<open>\<^verbatim>\<open>self.logger.error("Failed '{}' with {}: {}".format(sql, e.pgcode, e.pgerror))\<close>\<close>
  "query_failed sql pgcode pgerror =
     (ERROR, ''Failed '' @ [CHR 0x27] @ sql @ [CHR 0x27] @ '' with '' @ pgcode @ '': '' @ pgerror)"

definition fos_row :: "string list \<Rightarrow> table \<Rightarrow> pyval list \<Rightarrow> table outcome" where
  \<comment> \<open>one pass of \<^verbatim>\<open>for row in cursor.fetchall()\<close>\<close>
  "fos_row COLS DATA r =
     (let rowdict = dict_zip COLS r in
      case getitem rowdict ''field_of_science_id'' of
        Raise e \<Rightarrow> Raise e
      | Return key \<Rightarrow>
          (case getitem rowdict ''fos_nsf_abbrev'' of
             Raise e \<Rightarrow> Raise e
           | Return na \<Rightarrow>
               Return (AList.update key
                 (if is_none_str na then AList.update ''fos_nsf_abbrev'' PNone rowdict else rowdict) DATA)))"


definition fos_Retrieve_Source :: "query_result \<Rightarrow> table outcome \<times> logline list" where
  "fos_Retrieve_Source q =
     (case q of
        QueryError pgcode pgerror \<Rightarrow>
          (Raise (SystemExit 1), [query_failed ''SELECT * from info_services.fosv'' pgcode pgerror])
      | QueryRows COLS rs \<Rightarrow> (for_rows (fos_row COLS) [] rs, []))"

subsection \<open>\<^verbatim>\<open>Store_Destination\<close>\<close>

definition fos_curdigest :: "table \<Rightarrow> (pyval \<times> int list) list" where
  \<comment> \<open>the first loop; \<^verbatim>\<open>self.cur\<close> gets the same keys in the same order, each bound to its item\<close>
  "fos_curdigest items = foldl (\<lambda>d (k, xdict). AList.update k (cur_digest xdict) d) [] items"

definition fos_fields :: "(string \<times> bool) list" where
  \<comment> \<open>the entries of \<^verbatim>\<open>defaults\<close> in order; \<^const>\<open>True\<close> where the value is wrapped in \<^verbatim>\<open>str()\<close>\<close>
  "fos_fields =
     [(''field_of_science_desc'', True), (''fos_nsf_id'', False), (''fos_nsf_abbrev'', True),
      (''is_active'', True), (''fos_source'', True), (''nsf_directorate_id'', True),
      (''nsf_directorate_name'', True), (''nsf_directorate_abbrev'', True),
      (''parent_field_of_science_id'', False), (''parent_field_of_science_desc'', False),
      (''parent_fos_nsf_id'', False), (''parent_fos_nsf_abbrev'', True)]"

fun build_fields :: "row \<Rightarrow> (string \<times> bool) list \<Rightarrow> row outcome" where
  "build_fields nitem [] = Return []"
| "build_fields nitem ((f, wrapped) # fs) =
     (case getitem nitem f of
        Raise e \<Rightarrow> Raise e
      | Return v \<Rightarrow>
          (case build_fields nitem fs of
             Raise e \<Rightarrow> Raise e
           | Return d \<Rightarrow> Return ((f, if wrapped then PStr (py_str v) else v) # d)))"

definition fos_save_failed :: "db_error \<Rightarrow> pyval \<Rightarrow> fos_state \<Rightarrow> flow \<times> fos_state" where
  \<comment> \<open>the handler \<^verbatim>\<open>except (DataError, IntegrityError) as e\<close> of the second loop\<close>
  "fos_save_failed e fid s =
     (let msg = type_name e @ '' saving ID='' @ py_str fid @ '': '' @ str_e e
      in (Ret (False, msg), s\<lparr>logger := logger s @ [(ERROR, msg)]\<rparr>))"

definition fos_save_item ::
  "orm \<Rightarrow> (pyval \<times> int list) list \<Rightarrow> pyval \<times> row \<Rightarrow> fos_state \<Rightarrow> flow \<times> fos_state" where
  \<comment> \<open>one pass of \<^verbatim>\<open>for new_id in new_items\<close>; \<^verbatim>\<open>curdigest.get(new_id, '')\<close> is a digest or
      the empty string, which equals no digest\<close>
  "fos_save_item dj curdigest x s =
     (case x of (new_id, nitem) \<Rightarrow>
        if map_of curdigest new_id = Some (new_digest nitem)
        then (Next, s\<lparr>STATS := inc (STATS s) ''Skip''\<rparr>)
        else
          (case getitem nitem ''field_of_science_id'' of
             Raise e \<Rightarrow> (Exc e, s)
           | Return fid \<Rightarrow>
               (case build_fields nitem fos_fields of
                  Raise e \<Rightarrow> (Exc e, s)
                | Return defaults \<Rightarrow>
                    (case update_or_create_raises dj (db s) fid defaults of
                       Some e \<Rightarrow> fos_save_failed e fid s
                     | None \<Rightarrow>
                         let s1 = s\<lparr>db := AList.update fid (model_to_dict dj fid defaults) (db s)\<rparr>
                         in (case save_raises dj (db s1) fid defaults of
                               Some e \<Rightarrow> fos_save_failed e fid s1
                             | None \<Rightarrow>
                                 (Next, s1\<lparr>logger := logger s1 @
                                             [(DEBUG, ''FOS save field_of_science_id='' @ py_str fid)],
                                           STATS := inc (STATS s1) ''Update''\<rparr>))))))"

fun fos_save_loop ::
  "orm \<Rightarrow> (pyval \<times> int list) list \<Rightarrow> table \<Rightarrow> fos_state \<Rightarrow> flow \<times> fos_state" where
  "fos_save_loop dj curdigest [] s = (Next, s)"
| "fos_save_loop dj curdigest (x # xs) s =
     (case fos_save_item dj curdigest x s of
        (Next, s') \<Rightarrow> fos_save_loop dj curdigest xs s'
      | r \<Rightarrow> r)"

definition fos_delete_item :: "orm \<Rightarrow> string \<Rightarrow> table \<Rightarrow> fos_state \<Rightarrow> pyval \<Rightarrow> fos_state" where
  \<comment> \<open>one pass of \<^verbatim>\<open>for cur_id in self.cur\<close>; the handler logs and the loop goes on\<close>
  "fos_delete_item dj me new_items s cur_id =
     (if map_of new_items cur_id \<noteq> None then s
      else
        (case delete_raises dj (db s) cur_id of
           None \<Rightarrow>
             s\<lparr>db := AList.delete cur_id (db s),
               STATS := inc (STATS s) ''Delete'',
               logger := logger s @
                 [(INFO, me @ '' delete field_of_science_id='' @ py_str (id_after_delete dj cur_id))]\<rparr>
         | Some e \<Rightarrow>
             s\<lparr>logger := logger s @
                 [(ERROR, type_name e @ '' deleting ID='' @ py_str cur_id @ '': '' @ str_e e)]\<rparr>))"

definition fos_Store_Destination ::
  "orm \<Rightarrow> string \<Rightarrow> table \<Rightarrow> fos_state \<Rightarrow> (bool \<times> string) outcome \<times> fos_state" where
  "fos_Store_Destination dj me new_items s =
     (let curdigest = fos_curdigest (db s) in
      case fos_save_loop dj curdigest new_items s of
        (Next, s1) \<Rightarrow>
          (Return (True, []), foldl (fos_delete_item dj me new_items) s1 (map fst curdigest))
      | (Ret r, s1) \<Rightarrow> (Return r, s1)
      | (Exc e, s1) \<Rightarrow> (Raise e, s1))"

subsection \<open>\<^verbatim>\<open>Run\<close>\<close>

text \<open>
  What a run leaves behind: the destination, counters and log; whether the source cursor
  is still open; the calls of \<^verbatim>\<open>pa.FinishActivity\<close>; and how \<^verbatim>\<open>Run\<close> ended. The
  wall-clock duration, formatted with \<^verbatim>\<open>{:.3f}\<close>, is a parameter.
\<close>

record 's run_result =
  final :: 's
  cursor_open :: bool
  finish_reports :: "(bool \<times> string) list"
  ending :: "unit outcome"

record source_env =
  connect :: "string \<Rightarrow> exn option"
  SOURCE_DBUSER :: string
  SOURCE_DBPASS :: string
  src_uri :: string
  dest_orm :: orm
  ME :: string
  seconds :: string

record fos_env = source_env +
  fosv :: query_result

definition summary_msg :: "string \<Rightarrow> string \<Rightarrow> nat \<Rightarrow> nat \<Rightarrow> nat \<Rightarrow> string" where
  "summary_msg me secs updates deletes skipped =
     ''Processed '' @ me @ '' in '' @ secs @ ''/seconds: '' @ str_int (int updates) @ ''/updates, ''
       @ str_int (int deletes) @ ''/deletes, '' @ str_int (int skipped) @ ''/skipped''"

definition fos_Run :: "fos_env \<Rightarrow> table \<Rightarrow> fos_state run_result" where
  "fos_Run env dest =
     (let s0 = \<lparr>db = dest, STATS = (\<lambda>_. 0), logger = []\<rparr> in
      case Connect_Source True (connect env) (SOURCE_DBUSER env) (SOURCE_DBPASS env) (src_uri env) of
        (Raise e, lg) \<Rightarrow>
          \<lparr>final = s0\<lparr>logger := lg\<rparr>, cursor_open = False, finish_reports = [], ending = Raise e\<rparr>
      | (Return CURSOR, lg) \<Rightarrow>
          (case fos_Retrieve_Source (fosv env) of
             (Raise e, lg') \<Rightarrow>
               \<lparr>final = s0\<lparr>logger := lg @ lg'\<rparr>, cursor_open = True, finish_reports = [],
                ending = Raise e\<rparr>
           | (Return INPUT, lg') \<Rightarrow>
               (case fos_Store_Destination (dest_orm env) (ME env) INPUT (s0\<lparr>logger := lg @ lg'\<rparr>) of
                  (Raise e, s) \<Rightarrow>
                    \<lparr>final = s, cursor_open = True, finish_reports = [], ending = Raise e\<rparr>
                | (Return (rc, warehouse_msg), s) \<Rightarrow>
                    let msg = summary_msg (ME env) (seconds env) (STATS s ''Update'') (STATS s ''Delete'')
                                (STATS s ''Skip'') in
                    \<lparr>final = s\<lparr>logger := logger s @ [(INFO, msg)]\<rparr>, cursor_open = False,
                     finish_reports = [(rc, msg)], ending = Return ()\<rparr>)))"

section \<open>\<^verbatim>\<open>route_xdcdb-persons.py\<close>\<close>

subsection \<open>\<^verbatim>\<open>Retrieve_Source\<close>\<close>

text \<open>
  The values of the dictionary \<^verbatim>\<open>DATA\<close> that \<^verbatim>\<open>Retrieve_Source\<close> returns: the row of a
  person; a list of address rows (\<^verbatim>\<open>A_DATA.get(key, {})\<close> when the person has addresses)
  or the empty dictionary (when not); the joined countries or e-mail addresses of a person,
  or \<^verbatim>\<open>None\<close>.
\<close>

datatype pvalue = PersonRow row | AddressList "row list" | EmptyDict | Joined pyval

type_synonym pdata = "(pyval \<times> pvalue) list"

definition address_row :: "string list \<Rightarrow> (pyval \<times> row list) list \<Rightarrow> pyval list \<Rightarrow> (pyval \<times> row list) list outcome" where
  \<comment> \<open>\<^verbatim>\<open>if key not in A_DATA: A_DATA[key] = []\<close>, then \<^verbatim>\<open>A_DATA[key].append(rowdict)\<close>\<close>
  "address_row COLS A_DATA r =
     (let rowdict = dict_zip COLS r in
      case getitem rowdict ''person_id'' of
        Raise e \<Rightarrow> Raise e
      | Return key \<Rightarrow>
          Return (AList.update key ((case map_of A_DATA key of None \<Rightarrow> [] | Some l \<Rightarrow> l) @ [rowdict]) A_DATA))"

definition joined_row :: "string \<Rightarrow> string list \<Rightarrow> (pyval \<times> pyval) list \<Rightarrow> pyval list \<Rightarrow> (pyval \<times> pyval) list outcome" where
  \<comment> \<open>the body of the loops over \<^verbatim>\<open>citizenship_v\<close> (field \<^verbatim>\<open>country\<close>) and \<^verbatim>\<open>email_v\<close>
      (field \<^verbatim>\<open>Email\<close>); \<^verbatim>\<open>C_DATA[key] += ',' + rowdict[field]\<close> raises \<^verbatim>\<open>TypeError\<close>
      unless both are strings\<close>
  "joined_row field COLS C_DATA r =
     (let rowdict = dict_zip COLS r in
      case getitem rowdict ''person_id'' of
        Raise e \<Rightarrow> Raise e
      | Return key \<Rightarrow>
          (case getitem rowdict field of
             Raise e \<Rightarrow> Raise e
           | Return v \<Rightarrow>
               (case map_of C_DATA key of
                  None \<Rightarrow> Return (AList.update key v C_DATA)
                | Some old \<Rightarrow>
                    (case (old, v) of
                       (PStr a, PStr b) \<Rightarrow> Return (AList.update key (PStr (a @ '','' @ b)) C_DATA)
                     | _ \<Rightarrow> Raise TypeError))))"

definition person_aggregates ::
  "(pyval \<times> row list) list \<Rightarrow> (pyval \<times> pyval) list \<Rightarrow> (pyval \<times> pyval) list \<Rightarrow> pyval \<Rightarrow> pvalue \<times> pvalue \<times> pvalue" where
  \<comment> \<open>\<^verbatim>\<open>A_DATA.get(key, {})\<close>, \<^verbatim>\<open>C_DATA.get(key, None)\<close>, \<^verbatim>\<open>E_DATA.get(key, None)\<close>\<close>
  "person_aggregates A_DATA C_DATA E_DATA key =
     ((case map_of A_DATA key of None \<Rightarrow> EmptyDict | Some l \<Rightarrow> AddressList l),
      Joined (case map_of C_DATA key of None \<Rightarrow> PNone | Some v \<Rightarrow> v),
      Joined (case map_of E_DATA key of None \<Rightarrow> PNone | Some v \<Rightarrow> v))"

definition person_row ::
  "(pyval \<times> row list) list \<Rightarrow> (pyval \<times> pyval) list \<Rightarrow> (pyval \<times> pyval) list \<Rightarrow> string list \<Rightarrow> pdata \<Rightarrow> pyval list \<Rightarrow> pdata outcome" where
  \<comment> \<open>one pass of the loop over \<^verbatim>\<open>person_v\<close>\<close>
  "person_row A_DATA C_DATA E_DATA COLS DATA r =
     (let rowdict = dict_zip COLS r in
      case getitem rowdict ''person_id'' of
        Raise e \<Rightarrow> Raise e
      | Return key \<Rightarrow>
          (case person_aggregates A_DATA C_DATA E_DATA key of
             (a, c, e) \<Rightarrow>
               Return (AList.update (PStr ''emails'') e
                 (AList.update (PStr ''citizenships'') c
                   (AList.update (PStr ''addresses'') a
                     (AList.update key (PersonRow rowdict) DATA))))))"

definition run_query ::
  "string \<Rightarrow> query_result \<Rightarrow> (string list \<Rightarrow> 'a \<Rightarrow> pyval list \<Rightarrow> 'a outcome) \<Rightarrow> 'a \<Rightarrow> 'a outcome \<times> logline list" where
  \<comment> \<open>\<^verbatim>\<open>cursor.execute(sql)\<close> in its \<^verbatim>\<open>try\<close> with \<^verbatim>\<open>exit(1)\<close> in the handler, then the loop\<close>
  "run_query sql q body init =
     (case q of
        QueryError pgcode pgerror \<Rightarrow> (Raise (SystemExit 1), [query_failed sql pgcode pgerror])
      | QueryRows COLS rs \<Rightarrow> (for_rows (body COLS) init rs, []))"

definition persons_Retrieve_Source ::
  "query_result \<Rightarrow> query_result \<Rightarrow> query_result \<Rightarrow> query_result \<Rightarrow> pdata outcome \<times> logline list" where
  "persons_Retrieve_Source address_v citizenship_v email_v person_v =
     (case run_query ''SELECT * from info_services.address_v'' address_v address_row [] of
        (Raise e, lg) \<Rightarrow> (Raise e, lg)
      | (Return A_DATA, lg) \<Rightarrow>
     (case run_query ''SELECT * from info_services.citizenship_v'' citizenship_v (joined_row ''country'') [] of
        (Raise e, lg) \<Rightarrow> (Raise e, lg)
      | (Return C_DATA, lg) \<Rightarrow>
     (case run_query ''SELECT * from info_services.email_v'' email_v (joined_row ''Email'') [] of
        (Raise e, lg) \<Rightarrow> (Raise e, lg)
      | (Return E_DATA, lg) \<Rightarrow>
          run_query ''SELECT * from info_services.person_v'' person_v (person_row A_DATA C_DATA E_DATA) [])))"

subsection \<open>\<^verbatim>\<open>Store_Destination\<close>\<close>

record persons_state =
  pdb :: table
  MyUpdateStat :: nat
  MyDeleteStat :: nat
  MySkipStat :: nat
  plogger :: "logline list"

definition pgetitem :: "pvalue \<Rightarrow> string \<Rightarrow> pyval outcome" where
  \<comment> \<open>\<^verbatim>\<open>nitem[k]\<close> on the values of \<^verbatim>\<open>new_items\<close>: a list, a string and \<^verbatim>\<open>None\<close> cannot be
      subscripted with a string, and the empty dictionary has no key\<close>
  "pgetitem nitem k =
     (case nitem of
        PersonRow d \<Rightarrow> getitem d k
      | AddressList l \<Rightarrow> Raise TypeError
      | EmptyDict \<Rightarrow> Raise (KeyError k)
      | Joined v \<Rightarrow> Raise TypeError)"

definition persons_fields :: "(string \<times> bool) list" where
  \<comment> \<open>the keyword arguments of \<^verbatim>\<open>XSEDEPerson(...)\<close> after \<^verbatim>\<open>person_id\<close> and before
      \<^verbatim>\<open>addressesJSON\<close>, all wrapped in \<^verbatim>\<open>str()\<close>\<close>
  "persons_fields =
     [(''portal_login'', True), (''last_name'', True), (''first_name'', True), (''middle_name'', True),
      (''is_suspended'', True), (''organization'', True), (''citizenships'', True), (''emails'', True)]"

fun pbuild_fields :: "pvalue \<Rightarrow> (string \<times> bool) list \<Rightarrow> row outcome" where
  "pbuild_fields nitem [] = Return []"
| "pbuild_fields nitem ((f, wrapped) # fs) =
     (case pgetitem nitem f of
        Raise e \<Rightarrow> Raise e
      | Return v \<Rightarrow>
          (case pbuild_fields nitem fs of
             Raise e \<Rightarrow> Raise e
           | Return d \<Rightarrow> Return ((f, if wrapped then PStr (py_str v) else v) # d)))"

definition save_handler :: "pyval option \<Rightarrow> exn" where
  \<comment> \<open>the handler \<^verbatim>\<open>except (DataError, IntegrityError) as e\<close> formats \<^verbatim>\<open>person_id\<close>, a local
      variable assigned only after a save that succeeded, and then \<^verbatim>\<open>e.message\<close>, an
      attribute that exceptions do not have in Python 3\<close>
  "save_handler person_id =
     (case person_id of
        None \<Rightarrow> UnboundLocalError ''person_id''
      | Some p \<Rightarrow> AttributeError ''message'')"

definition persons_save_item ::
  "orm \<Rightarrow> pyval \<times> pvalue \<Rightarrow> persons_state \<times> pyval option \<Rightarrow> flow \<times> persons_state \<times> pyval option" where
  \<comment> \<open>one pass of \<^verbatim>\<open>for new_id in new_items\<close>; the second component is the local variable
      \<^verbatim>\<open>person_id\<close>\<close>
  "persons_save_item dj x sl =
     (case (x, sl) of ((new_id, nitem), (s, person_id)) \<Rightarrow>
        (case pgetitem nitem ''person_id'' of
           Raise e \<Rightarrow> (Exc e, s, person_id)
         | Return pid \<Rightarrow>
             (case pbuild_fields nitem persons_fields of
                Raise e \<Rightarrow> (Exc e, s, person_id)
              | Return fs \<Rightarrow>
                  (case pgetitem nitem ''addresses'' of
                     Raise e \<Rightarrow> (Exc e, s, person_id)
                   | Return a \<Rightarrow>
                       let fields = fs @ [(''addressesJSON'', a)] in
                       (case save_raises dj (pdb s) pid fields of
                          Some e \<Rightarrow> (Exc (save_handler person_id), s, person_id)
                        | None \<Rightarrow>
                            (Next,
                             s\<lparr>pdb := AList.update pid (model_to_dict dj pid fields) (pdb s),
                               plogger := plogger s @ [(DEBUG, ''Persons save person_id='' @ py_str pid)],
                               MyUpdateStat := MyUpdateStat s + 1\<rparr>,
                             Some pid))))))"

fun persons_save_loop ::
  "orm \<Rightarrow> pdata \<Rightarrow> persons_state \<times> pyval option \<Rightarrow> flow \<times> persons_state \<times> pyval option" where
  "persons_save_loop dj [] sl = (Next, sl)"
| "persons_save_loop dj (x # xs) sl =
     (case persons_save_item dj x sl of
        (Next, sl') \<Rightarrow> persons_save_loop dj xs sl'
      | r \<Rightarrow> r)"

definition persons_Store_Destination ::
  "orm \<Rightarrow> pdata \<Rightarrow> persons_state \<Rightarrow> (bool \<times> string) outcome \<times> persons_state" where
  \<comment> \<open>the last loop subscripts a model instance, \<^verbatim>\<open>self.cur[item]['person_id']\<close>, in its first
      pass, so it raises \<^verbatim>\<open>TypeError\<close> unless the destination was empty\<close>
  "persons_Store_Destination dj new_items s =
     (case persons_save_loop dj new_items (s, None) of
        (Next, s1, l) \<Rightarrow> if pdb s = [] then (Return (True, []), s1) else (Raise TypeError, s1)
      | (Ret r, s1, l) \<Rightarrow> (Return r, s1)
      | (Exc e, s1, l) \<Rightarrow> (Raise e, s1))"

subsection \<open>\<^verbatim>\<open>run\<close>\<close>

record persons_env = source_env +
  starting :: string
  address_v :: query_result
  citizenship_v :: query_result
  email_v :: query_result
  person_v :: query_result

definition src_scheme :: "string \<Rightarrow> string" where
  \<comment> \<open>\<^verbatim>\<open>self.src['scheme']\<close>, as \<^verbatim>\<open>__init__\<close> takes it from the source URL\<close>
  "src_scheme url = (let idx = find_chr url CHR '':'' in if idx > 0 then take (nat idx) url else url)"

definition persons_run :: "persons_env \<Rightarrow> table \<Rightarrow> persons_state run_result" where
  \<comment> \<open>\<^verbatim>\<open>starting\<close> is the line \<^verbatim>\<open>Starting program=... pid=..., uid=...\<close> that \<^verbatim>\<open>run\<close> logs first\<close>
  "persons_run env dest =
     (let s0 = \<lparr>pdb = dest, MyUpdateStat = 0, MyDeleteStat = 0, MySkipStat = 0,
                plogger = [(INFO, starting env)]\<rparr> in
      if src_scheme (src_uri env) \<noteq> ''postgresql''
      then \<lparr>final = s0, cursor_open = False, finish_reports = [], ending = Raise (SystemExit 1)\<rparr>
      else
      case Connect_Source False (connect env) (SOURCE_DBUSER env) (SOURCE_DBPASS env) (src_uri env) of
        (Raise e, lg) \<Rightarrow>
          \<lparr>final = s0\<lparr>plogger := plogger s0 @ lg\<rparr>, cursor_open = False, finish_reports = [],
           ending = Raise e\<rparr>
      | (Return CURSOR, lg) \<Rightarrow>
          (case persons_Retrieve_Source (address_v env) (citizenship_v env) (email_v env) (person_v env) of
             (Raise e, lg') \<Rightarrow>
               \<lparr>final = s0\<lparr>plogger := plogger s0 @ lg @ lg'\<rparr>, cursor_open = True, finish_reports = [],
                ending = Raise e\<rparr>
           | (Return INPUT, lg') \<Rightarrow>
               (case persons_Store_Destination (dest_orm env) INPUT (s0\<lparr>plogger := plogger s0 @ lg @ lg'\<rparr>) of
                  (Raise e, s) \<Rightarrow>
                    \<lparr>final = s, cursor_open = True, finish_reports = [], ending = Raise e\<rparr>
                | (Return (rc, warehouse_msg), s) \<Rightarrow>
                    let msg = summary_msg (ME env) (seconds env) (MyUpdateStat s) (MyDeleteStat s)
                                (MySkipStat s) in
                    \<lparr>final = s\<lparr>plogger := plogger s @ [(INFO, msg)]\<rparr>, cursor_open = False,
                     finish_reports = [(rc, msg)], ending = Return ()\<rparr>)))"

section \<open>\<^verbatim>\<open>route_xdcdb-users.py\<close>\<close>

text \<open>
  An instance of the model \<^verbatim>\<open>XSEDELocalUsermap\<close>, with the attributes that the router sets
  and reads. The destination is the list of the instances, as \<^verbatim>\<open>objects.all()\<close> yields them;
  \<^verbatim>\<open>save()\<close> of a new instance adds one, \<^verbatim>\<open>delete()\<close> removes one.
\<close>

record usermap =
  person_id :: pyval
  portal_login :: pyval
  resource_id :: pyval
  resource_name :: pyval
  local_username :: pyval
  ResourceID :: pyval

record usermap_orm =
  usermap_save_raises :: "usermap list \<Rightarrow> usermap \<Rightarrow> db_error option"
  usermap_delete_raises :: "usermap list \<Rightarrow> usermap \<Rightarrow> db_error option"

record users_state =
  udb :: "usermap list"
  stats :: "(string \<times> nat) list"
  ulogger :: "logline list"

definition usermap_row :: "string list \<Rightarrow> (string \<times> row) list \<Rightarrow> pyval list \<Rightarrow> (string \<times> row) list outcome" where
  \<comment> \<open>\<^verbatim>\<open>DATA[str(rowdict['username'])+str(rowdict['resource_name'])] = rowdict\<close>\<close>
  "usermap_row COLS DATA r =
     (let rowdict = dict_zip COLS r in
      case getitem rowdict ''username'' of
        Raise e \<Rightarrow> Raise e
      | Return u \<Rightarrow>
          (case getitem rowdict ''resource_name'' of
             Raise e \<Rightarrow> Raise e
           | Return rn \<Rightarrow> Return (AList.update (py_str u @ py_str rn) rowdict DATA)))"

definition Retrieve_Usermap :: "query_result \<Rightarrow> (string \<times> row) list outcome \<times> logline list" where
  "Retrieve_Usermap q = run_query ''SELECT * from info_services.xsede_local_usermap'' q usermap_row []"

definition cur_add ::
  "(string \<times> (string \<times> usermap) list) list \<Rightarrow> usermap \<Rightarrow> (string \<times> (string \<times> usermap) list) list" where
  \<comment> \<open>one pass of \<^verbatim>\<open>for item in XSEDELocalUsermap.objects.all()\<close>\<close>
  "cur_add cur item =
     (let rn = py_str (resource_name item); lu = py_str (local_username item) in
      case map_of cur rn of
        Some inner \<Rightarrow>
          (if map_of inner lu \<noteq> None then cur else AList.update rn (AList.update lu item inner) cur)
      | None \<Rightarrow> AList.update rn [(lu, item)] cur)"

definition lookup_str :: "pyval \<Rightarrow> (string \<times> 'a) list \<Rightarrow> 'a option" where
  \<comment> \<open>the entry of \<^verbatim>\<open>v\<close> in a dictionary whose keys are strings; \<^verbatim>\<open>v in d\<close> holds when there
      is one\<close>
  "lookup_str v d = (case v of PStr k \<Rightarrow> map_of d k | _ \<Rightarrow> None)"

definition stats_incr :: "string \<Rightarrow> (string \<times> nat) list \<Rightarrow> (string \<times> nat) list outcome" where
  \<comment> \<open>\<^verbatim>\<open>self.stats[k] += 1\<close> on a plain dictionary\<close>
  "stats_incr k st = (case map_of st k of None \<Rightarrow> Raise (KeyError k) | Some n \<Rightarrow> Return (AList.update k (n + 1) st))"

definition obind :: "'a outcome \<Rightarrow> ('a \<Rightarrow> 'b outcome) \<Rightarrow> 'b outcome" where
  "obind x f = (case x of Raise e \<Rightarrow> Raise e | Return v \<Rightarrow> f v)"

definition new_usermap :: "row \<Rightarrow> usermap outcome" where
  \<comment> \<open>\<^verbatim>\<open>XSEDELocalUsermap(person_id=nitem['person_id'], ...)\<close>, the subscripts in the order of
      the keyword arguments\<close>
  "new_usermap nitem =
     obind (getitem nitem ''person_id'') (\<lambda>pid.
     obind (getitem nitem ''portal_login'') (\<lambda>pl.
     obind (getitem nitem ''resource_id'') (\<lambda>rid.
     obind (getitem nitem ''resource_name'') (\<lambda>rn.
     obind (getitem nitem ''username'') (\<lambda>un.
     obind (getitem nitem ''resource_name'') (\<lambda>rn'.
       Return \<lparr>person_id = pid, portal_login = PStr (py_str pl), resource_id = rid,
               resource_name = PStr (py_str rn), local_username = PStr (py_str un),
               ResourceID = PStr (py_str rn' @ ''.org'')\<rparr>))))))"

definition users_save_item ::
  "usermap_orm \<Rightarrow> (string \<times> (string \<times> usermap) list) list \<Rightarrow> string \<times> row
     \<Rightarrow> users_state \<times> pyval option \<Rightarrow> flow \<times> users_state \<times> pyval option" where
  \<comment> \<open>one pass of \<^verbatim>\<open>for new_id in new_items\<close>; the second component is the local variable
      \<^verbatim>\<open>person_id\<close>\<close>
  "users_save_item dj cur x sl =
     (case (x, sl) of ((new_id, nitem), (s, pid_local)) \<Rightarrow>
        (case getitem nitem ''resource_name'' of
           Raise e \<Rightarrow> (Exc e, s, pid_local)
         | Return rn \<Rightarrow>
             (case (case lookup_str rn cur of
                      None \<Rightarrow> Return False
                    | Some inner \<Rightarrow>
                        obind (getitem nitem ''username'') (\<lambda>un. Return (lookup_str un inner \<noteq> None))) of
                Raise e \<Rightarrow> (Exc e, s, pid_local)
              | Return True \<Rightarrow> (Next, s, pid_local)
              | Return False \<Rightarrow>
                  (case new_usermap nitem of
                     Raise e \<Rightarrow> (Exc e, s, pid_local)
                   | Return model \<Rightarrow>
                       (case usermap_save_raises dj (udb s) model of
                          Some e \<Rightarrow> (Exc (save_handler pid_local), s, pid_local)
                        | None \<Rightarrow>
                            let s1 = s\<lparr>udb := udb s @ [model],
                                       ulogger := ulogger s @
                                         [(DEBUG, ''Usermap save person_id='' @ py_str (person_id model))]\<rparr>
                            in (case stats_incr ''UserMap.Update'' (stats s1) of
                                  Raise e \<Rightarrow> (Exc e, s1, Some (person_id model))
                                | Return st \<Rightarrow> (Next, s1\<lparr>stats := st\<rparr>, Some (person_id model))))))))"

fun users_save_loop ::
  "usermap_orm \<Rightarrow> (string \<times> (string \<times> usermap) list) list \<Rightarrow> (string \<times> row) list
     \<Rightarrow> users_state \<times> pyval option \<Rightarrow> flow \<times> users_state \<times> pyval option" where
  "users_save_loop dj cur [] sl = (Next, sl)"
| "users_save_loop dj cur (x # xs) sl =
     (case users_save_item dj cur x sl of
        (Next, sl') \<Rightarrow> users_save_loop dj cur xs sl'
      | r \<Rightarrow> r)"

definition users_delete_item :: "usermap_orm \<Rightarrow> (string \<times> row) list \<Rightarrow> usermap \<Rightarrow> users_state \<Rightarrow> flow \<times> users_state" where
  \<comment> \<open>one pass of the inner loop over \<^verbatim>\<open>self.cur[resource]\<close>: the handler reads
      \<^verbatim>\<open>e.message\<close>, and the counter key is spelled \<^verbatim>\<open>Usermap.Delete\<close>\<close>
  "users_delete_item dj new_items item s =
     (let compstring = py_str (local_username item) @ py_str (resource_name item) in
      if map_of new_items compstring \<noteq> None then (Next, s)
      else
        (case usermap_delete_raises dj (udb s) item of
           Some e \<Rightarrow> (Exc (AttributeError ''message''), s)
         | None \<Rightarrow>
             let s1 = s\<lparr>udb := remove1 item (udb s)\<rparr> in
             (case stats_incr ''Usermap.Delete'' (stats s1) of
                Raise e \<Rightarrow> (Exc e, s1)
              | Return st \<Rightarrow>
                  (Next, s1\<lparr>stats := st,
                            ulogger := ulogger s1 @
                              [(INFO, ''Usermap delete person_id='' @ py_str (person_id item))]\<rparr>))))"

fun users_delete_loop :: "usermap_orm \<Rightarrow> (string \<times> row) list \<Rightarrow> usermap list \<Rightarrow> users_state \<Rightarrow> flow \<times> users_state" where
  "users_delete_loop dj new_items [] s = (Next, s)"
| "users_delete_loop dj new_items (item # items) s =
     (case users_delete_item dj new_items item s of
        (Next, s') \<Rightarrow> users_delete_loop dj new_items items s'
      | r \<Rightarrow> r)"

definition Warehouse_Usermap ::
  "usermap_orm \<Rightarrow> (string \<times> row) list \<Rightarrow> users_state \<Rightarrow> (bool \<times> string) outcome \<times> users_state" where
  "Warehouse_Usermap dj new_items s =
     (let cur = foldl cur_add [] (udb s) in
      case users_save_loop dj cur new_items (s, None) of
        (Next, s1, l) \<Rightarrow>
          (case users_delete_loop dj new_items (concat (map (\<lambda>(resource, inner). map snd inner) cur)) s1 of
             (Next, s2) \<Rightarrow> (Return (True, []), s2)
           | (Ret r, s2) \<Rightarrow> (Return r, s2)
           | (Exc e, s2) \<Rightarrow> (Raise e, s2))
      | (Ret r, s1, l) \<Rightarrow> (Return r, s1)
      | (Exc e, s1, l) \<Rightarrow> (Raise e, s1))"

definition users_run_stats :: "(string \<times> nat) list" where
  \<comment> \<open>the counters as \<^verbatim>\<open>run\<close> sets them before the call of \<^verbatim>\<open>Warehouse_Usermap\<close>\<close>
  "users_run_stats = [(''UserMap.Update'', 0), (''UserMap.Delete'', 0), (''UserMap.Skip'', 0)]"

definition in_cur :: "string \<Rightarrow> string \<Rightarrow> (string \<times> (string \<times> usermap) list) list \<Rightarrow> bool" where
  \<comment> \<open>\<^verbatim>\<open>rn in self.cur and lu in self.cur[rn]\<close>\<close>
  "in_cur rn lu cur = (case map_of cur rn of None \<Rightarrow> False | Some inner \<Rightarrow> map_of inner lu \<noteq> None)"

section \<open>Invariants and sample data\<close>

definition keyed :: "table \<Rightarrow> bool" where
  \<comment> \<open>what \<^verbatim>\<open>Retrieve_Source\<close> returns: a dictionary that binds each identifier to a record
      with that \<^verbatim>\<open>field_of_science_id\<close>\<close>
  "keyed S = (distinct (map fst S) \<and> (\<forall>(k, r) \<in> set S. map_of r ''field_of_science_id'' = Some k))"

definition stable_value :: "bool \<Rightarrow> pyval \<Rightarrow> bool" where
  \<comment> \<open>the value that a save writes for a field (wrapped in \<^verbatim>\<open>str()\<close> or as it is), normalized
      as the first loop of \<^verbatim>\<open>Store_Destination\<close> does, is the source value again\<close>
  "stable_value wrapped v =
     (let w = (if wrapped then PStr (py_str v) else v) in (if is_none_str w then PNone else w) = v)"


definition fosv_columns :: "string list" where
  "fosv_columns =
     [''field_of_science_id'', ''field_of_science_desc'', ''fos_nsf_id'', ''fos_nsf_abbrev'', ''is_active'',
      ''fos_source'', ''nsf_directorate_id'', ''nsf_directorate_name'', ''nsf_directorate_abbrev'',
      ''parent_field_of_science_id'', ''parent_field_of_science_desc'', ''parent_fos_nsf_id'',
      ''parent_fos_nsf_abbrev'']"

definition physics :: "pyval \<Rightarrow> pyval list" where
  \<comment> \<open>a row of the view, with the given value in the column \<^verbatim>\<open>parent_fos_nsf_abbrev\<close>\<close>
  "physics parent_abbrev =
     [PInt 1, PStr ''Physics'', PInt 13, PStr ''PHY'', PStr ''Y'', PStr ''NSF'', PNone, PStr ''MPS'',
      PStr ''MPS'', PNone, PNone, PNone, parent_abbrev]"

definition physics_dict :: "pyval \<Rightarrow> row" where
  "physics_dict parent_abbrev = zip fosv_columns (physics parent_abbrev)"


definition plain_orm :: orm where
  \<comment> \<open>a destination where no write fails, \<^verbatim>\<open>model_to_dict\<close> returns the key and the field
      values as they were written, and \<^verbatim>\<open>field_of_science_id\<close> is the primary key\<close>
  "plain_orm =
     \<lparr>update_or_create_raises = (\<lambda>t k d. None), save_raises = (\<lambda>t k d. None),
      delete_raises = (\<lambda>t k. None), model_to_dict = (\<lambda>k d. (''field_of_science_id'', k) # d),
      id_after_delete = (\<lambda>k. PNone)\<rparr>"

definition chemistry_item :: "pyval \<times> row" where
  \<comment> \<open>a destination record that no source row matches\<close>
  "chemistry_item = (PInt 2, [(''field_of_science_id'', PInt 2), (''field_of_science_desc'', PStr ''Chemistry'')])"





definition fresh :: "table \<Rightarrow> fos_state" where
  \<comment> \<open>the state in which \<^verbatim>\<open>Run\<close> calls \<^verbatim>\<open>Store_Destination\<close>, with an empty log\<close>
  "fresh t = \<lparr>db = t, STATS = (\<lambda>k. 0), logger = []\<rparr>"

definition sample_env :: "query_result \<Rightarrow> orm \<Rightarrow> fos_env" where
  "sample_env q dj =
     \<lparr>connect = (\<lambda>c. None), SOURCE_DBUSER = ''info'', SOURCE_DBPASS = ''secret'',
      src_uri = ''postgresql://localhost:5432/warehouse'', dest_orm = dj,
      ME = ''router_accessdb-fos.py'', seconds = ''0.001'', fosv = q\<rparr>"

definition jdoe_row :: row where
  \<comment> \<open>a row of \<^verbatim>\<open>xsede_local_usermap\<close>\<close>
  "jdoe_row =
     [(''person_id'', PInt 7), (''portal_login'', PStr ''jdoe''), (''resource_id'', PInt 5),
      (''resource_name'', PStr ''stampede''), (''username'', PStr ''jd'')]"

definition jdoe_item :: usermap where
  \<comment> \<open>the instance that the users router saves for that row\<close>
  "jdoe_item =
     \<lparr>person_id = PInt 7, portal_login = PStr ''jdoe'', resource_id = PInt 5,
      resource_name = PStr ''stampede'', local_username = PStr ''jd'', ResourceID = PStr ''stampede.org''\<rparr>"

definition jane_item :: usermap where
  \<comment> \<open>another instance, on the same resource\<close>
  "jane_item =
     \<lparr>person_id = PInt 8, portal_login = PStr ''jane'', resource_id = PInt 5,
      resource_name = PStr ''stampede'', local_username = PStr ''jn'', ResourceID = PStr ''stampede.org''\<rparr>"

definition plain_usermap_orm :: usermap_orm where
  "plain_usermap_orm = \<lparr>usermap_save_raises = (\<lambda>t m. None), usermap_delete_raises = (\<lambda>t m. None)\<rparr>"

definition jane_row :: row where
  \<comment> \<open>a record with every field that the persons router reads\<close>
  "jane_row =
     [(''person_id'', PInt 7), (''portal_login'', PStr ''jane''), (''last_name'', PStr ''Doe''),
      (''first_name'', PStr ''Jane''), (''middle_name'', PNone), (''is_suspended'', PBool False),
      (''organization'', PStr ''TACC''), (''citizenships'', PStr ''US''), (''emails'', PStr ''jane@example.org''),
      (''addresses'', PNone)]"

definition plain_persons_orm :: orm where
  \<comment> \<open>as \<^const>\<open>plain_orm\<close>, with \<^verbatim>\<open>person_id\<close> as the primary key\<close>
  "plain_persons_orm = plain_orm\<lparr>model_to_dict := (\<lambda>k d. (''person_id'', k) # d)\<rparr>"

definition jane_saved :: row where
  \<comment> \<open>the destination record that a save of \<^const>\<open>jane_row\<close> leaves\<close>
  "jane_saved =
     [(''person_id'', PInt 7), (''portal_login'', PStr ''jane''), (''last_name'', PStr ''Doe''),
      (''first_name'', PStr ''Jane''), (''middle_name'', PStr ''None''), (''is_suspended'', PStr ''False''),
      (''organization'', PStr ''TACC''), (''citizenships'', PStr ''US''), (''emails'', PStr ''jane@example.org''),
      (''addressesJSON'', PNone)]"

definition jane_stored :: persons_state where
  \<comment> \<open>a destination that holds that record, at the start of \<^verbatim>\<open>Store_Destination\<close>\<close>
  "jane_stored = \<lparr>pdb = [(PInt 7, jane_saved)], MyUpdateStat = 0, MyDeleteStat = 0, MySkipStat = 0, plogger = []\<rparr>"

definition jane_person_v :: query_result where
  \<comment> \<open>the view \<^verbatim>\<open>person_v\<close> with the one row \<^const>\<open>jane_row\<close>\<close>
  "jane_person_v = QueryRows (map fst jane_row) [map snd jane_row]"

definition empty_persons :: persons_state where
  "empty_persons = \<lparr>pdb = [], MyUpdateStat = 0, MyDeleteStat = 0, MySkipStat = 0, plogger = []\<rparr>"

definition refusing_orm :: orm where
  \<comment> \<open>a destination that rejects every \<^verbatim>\<open>update_or_create\<close>\<close>
  "refusing_orm = plain_orm\<lparr>update_or_create_raises := (\<lambda>t k d. Some (DataError ''value too long''))\<rparr>"



definition literal_keys :: "pyval set" where
  \<comment> \<open>the three keys that the loop over \<^verbatim>\<open>person_v\<close> assigns in every pass\<close>
  "literal_keys = {PStr ''addresses'', PStr ''citizenships'', PStr ''emails''}"

definition sample_address_v :: query_result where
  "sample_address_v = QueryRows [''person_id'', ''city''] [[PInt 7, PStr ''Austin'']]"

definition sample_citizenship_v :: query_result where
  "sample_citizenship_v = QueryRows [''person_id'', ''country''] [[PInt 7, PStr ''US''], [PInt 7, PStr ''FR'']]"

definition sample_email_v :: query_result where
  "sample_email_v = QueryRows [''person_id'', ''Email''] [[PInt 8, PStr ''roe@example.org'']]"

definition sample_person_columns :: "string list" where
  "sample_person_columns = [''person_id'', ''last_name'']"

definition sample_person_rows :: "pyval list list" where
  "sample_person_rows = [[PInt 7, PStr ''Doe''], [PInt 8, PStr ''Roe'']]"

definition sample_persons :: pdata where
  \<comment> \<open>what \<^verbatim>\<open>Retrieve_Source\<close> returns for the four sample queries\<close>
  "sample_persons =
     [(PInt 7, PersonRow [(''person_id'', PInt 7), (''last_name'', PStr ''Doe'')]),
      (PStr ''addresses'', EmptyDict),
      (PStr ''citizenships'', Joined PNone),
      (PStr ''emails'', Joined (PStr ''roe@example.org'')),
      (PInt 8, PersonRow [(''person_id'', PInt 8), (''last_name'', PStr ''Roe'')])]"

definition sample_persons_env :: persons_env where
  "sample_persons_env =
     \<lparr>connect = (\<lambda>c. None), SOURCE_DBUSER = ''info'', SOURCE_DBPASS = ''secret'',
      src_uri = ''postgresql://localhost:5432/warehouse'', dest_orm = plain_persons_orm,
      ME = ''route_xdcdb-persons.py'', seconds = ''0.001'',
      starting = ''Starting program=route_xdcdb-persons.py pid=100, uid=1000(info)'',
      address_v = sample_address_v, citizenship_v = sample_citizenship_v, email_v = sample_email_v,
      person_v = QueryRows sample_person_columns sample_person_rows\<rparr>"

definition refusing_persons_orm :: orm where
  \<comment> \<open>a destination that rejects every \<^verbatim>\<open>save\<close>\<close>
  "refusing_persons_orm = plain_persons_orm\<lparr>save_raises := (\<lambda>t k d. Some (DataError ''value too long''))\<rparr>"

abbreviation lookup_error :: "exn \<Rightarrow> bool" where
  \<comment> \<open>\<^verbatim>\<open>KeyError\<close> or \<^verbatim>\<open>TypeError\<close>\<close>
  "lookup_error ex \<equiv> (ex = TypeError \<or> (\<exists>k. ex = KeyError k))"

abbreviation handler_error :: "orm \<Rightarrow> exn \<Rightarrow> bool" where
  \<comment> \<open>what the handler of a failed save raises itself, with a write that the destination rejects\<close>
  "handler_error dj ex \<equiv>
     ((ex = UnboundLocalError ''person_id'' \<or> ex = AttributeError ''message'')
      \<and> (\<exists>t k f e. save_raises dj t k f = Some e))"

section \<open>Properties of the content digest\<close>

lemma filter_key_distinct:
  "distinct (map fst xs) \<Longrightarrow> k \<in> set xs \<Longrightarrow> filter (\<lambda>x. fst k = fst x) xs = [k]"
proof (induction xs)
  case Nil
  then show ?case by simp
next
  case (Cons x xs)
  show ?case
  proof (cases "k = x")
    case True
    with Cons.prems have "\<forall>y\<in>set xs. fst y \<noteq> fst x" by (auto simp: image_iff)
    then have "filter (\<lambda>y. fst k = fst y) xs = []" using True by (auto simp: filter_empty_conv)
    with True show ?thesis by simp
  next
    case False
    with Cons.prems have kin: "k \<in> set xs" by simp
    with Cons.prems have "fst k \<noteq> fst x" by (auto simp: image_iff)
    with Cons.IH Cons.prems kin show ?thesis by simp
  qed
qed

lemma sorted_items_perm:
  assumes d: "distinct (map fst d)" and p: "mset d' = mset d"
  shows "sorted_items d' = sorted_items d"
proof -
  let ?ys = "sort_key fst d'"
  have m: "mset ?ys = mset d" using p by simp
  have dk: "distinct (map fst d')"
  proof -
    have "mset (map fst d') = mset (map fst d)" using p by (metis mset_map)
    then show ?thesis using d by (metis mset_eq_imp_distinct_iff)
  qed
  have dys: "distinct (map fst ?ys)" using dk by (simp add: distinct_map)
  have "sort_key fst d = ?ys"
  proof (rule properties_for_sort_key [OF m])
    fix k assume k: "k \<in> set ?ys"
    then have kd: "k \<in> set d" using m by (metis mset_eq_setD)
    show "filter (\<lambda>x. fst k = fst x) ?ys = filter (\<lambda>x. fst k = fst x) d"
      using filter_key_distinct [OF dys k] filter_key_distinct [OF d kd] by simp
  next
    show "sorted (map fst ?ys)" by simp
  qed
  then show ?thesis by (simp add: sorted_items_def)
qed

lemma cur_normalize_keys: "map fst (cur_normalize d) = map fst d"
  by (induction d) (auto simp: cur_normalize_def)

text \<open>
  Claim C4. The content digest does not depend on the insertion order of the fields: two
  dictionaries with the same items in any two orders have the same digest, both as a source
  record (\<^const>\<open>new_digest\<close>) and as a destination record (\<^const>\<open>cur_digest\<close>).
\<close>

theorem digest_order_independent:
  assumes "distinct (map fst d)" and "mset d' = mset d"
  shows "new_digest d' = new_digest d \<and> cur_digest d' = cur_digest d"
proof -
  have 1: "sorted_items d' = sorted_items d" using assms by (rule sorted_items_perm)
  have "mset (cur_normalize d') = mset (cur_normalize d)"
    using assms(2) unfolding cur_normalize_def by simp
  moreover have "distinct (map fst (cur_normalize d))" using assms(1) by (simp add: cur_normalize_keys)
  ultimately have 2: "sorted_items (cur_normalize d') = sorted_items (cur_normalize d)"
    using sorted_items_perm by blast
  show ?thesis using 1 2 by (simp add: new_digest_def cur_digest_def strdict_def)
qed

theorem digest_order_independent_witness:
  "new_digest [(''b'', PInt 1), (''a'', PNone)] = new_digest [(''a'', PNone), (''b'', PInt 1)]
   \<and> cur_digest [(''b'', PInt 1), (''a'', PNone)] = cur_digest [(''a'', PNone), (''b'', PInt 1)]"
  using digest_order_independent [of "[(''a'', PNone), (''b'', PInt 1)]" "[(''b'', PInt 1), (''a'', PNone)]"]
  by simp

lemma cur_normalize_none:
  assumes "is_none_str v \<or> v = PNone" and "is_none_str w \<or> w = PNone"
  shows "cur_normalize (xs @ (k, v) # ys) = cur_normalize (xs @ (k, w) # ys)"
  using assms by (auto simp: cur_normalize_def is_none_str_def)

lemma fos_row_none:
  assumes v: "map_of (dict_zip COLS r) ''fos_nsf_abbrev'' = Some v"
    and r': "dict_zip COLS r' = AList.update ''fos_nsf_abbrev'' w (dict_zip COLS r)"
    and nv: "is_none_str v \<or> v = PNone" and nw: "is_none_str w \<or> w = PNone"
  shows "fos_row COLS DATA r' = fos_row COLS DATA r"
proof -
  let ?d = "dict_zip COLS r"
  let ?n = "AList.update ''fos_nsf_abbrev'' PNone ?d"
  have key: "map_of (dict_zip COLS r') ''field_of_science_id'' = map_of ?d ''field_of_science_id''"
    by (simp add: r' update_conv')
  have w: "map_of (dict_zip COLS r') ''fos_nsf_abbrev'' = Some w"
    by (simp add: r' update_conv')
  have a: "(if is_none_str v then ?n else ?d) = ?n"
    using nv v by (auto simp: update_triv)
  have b: "(if is_none_str w then AList.update ''fos_nsf_abbrev'' PNone (dict_zip COLS r') else dict_zip COLS r') = ?n"
    using nw by (auto simp: r')
  show ?thesis
    unfolding fos_row_def Let_def getitem_def key
    by (simp add: v w a b split: option.splits)
qed

lemma fos_row_keeps:
  assumes "fos_row COLS DATA r = Return DATA'"
  shows "\<exists>key na rec. getitem (dict_zip COLS r) ''field_of_science_id'' = Return key
      \<and> getitem (dict_zip COLS r) ''fos_nsf_abbrev'' = Return na
      \<and> map_of DATA' key = Some rec
      \<and> map_of rec ''fos_nsf_abbrev'' = Some (if is_none_str na then PNone else na)
      \<and> (\<forall>f. f \<noteq> ''fos_nsf_abbrev'' \<longrightarrow> map_of rec f = map_of (dict_zip COLS r) f)"
proof -
  let ?d = "dict_zip COLS r"
  from assms obtain key where key: "getitem ?d ''field_of_science_id'' = Return key"
    by (auto simp: fos_row_def Let_def split: outcome.splits)
  from assms key obtain na where na: "getitem ?d ''fos_nsf_abbrev'' = Return na"
    by (auto simp: fos_row_def Let_def split: outcome.splits)
  let ?rec = "if is_none_str na then AList.update ''fos_nsf_abbrev'' PNone ?d else ?d"
  have D: "DATA' = AList.update key ?rec DATA"
    using assms key na by (simp add: fos_row_def Let_def)
  have 1: "map_of DATA' key = Some ?rec" by (simp add: D update_conv')
  have 2: "map_of ?rec ''fos_nsf_abbrev'' = Some (if is_none_str na then PNone else na)"
    using na by (simp add: update_conv' getitem_def split: option.splits)
  have 3: "\<forall>f. f \<noteq> ''fos_nsf_abbrev'' \<longrightarrow> map_of ?rec f = map_of ?d f"
    by (simp add: update_conv')
  have "getitem ?d ''field_of_science_id'' = Return key
      \<and> getitem ?d ''fos_nsf_abbrev'' = Return na
      \<and> map_of DATA' key = Some ?rec
      \<and> map_of ?rec ''fos_nsf_abbrev'' = Some (if is_none_str na then PNone else na)
      \<and> (\<forall>f. f \<noteq> ''fos_nsf_abbrev'' \<longrightarrow> map_of ?rec f = map_of ?d f)"
    by (intro conjI) (rule key na 1 2 3)+
  then show ?thesis
    by - (rule exI [of _ key], rule exI [of _ na], rule exI [of _ ?rec])
qed

text \<open>
  Claim C5, amended. In the digest of a destination record, a field that holds
  \<^verbatim>\<open>None\<close> or the string \<^verbatim>\<open>none\<close> in any letter case hashes the same, whatever the
  field. On the source side \<^verbatim>\<open>Retrieve_Source\<close> normalizes the column
  \<^verbatim>\<open>fos_nsf_abbrev\<close> and no other: two source rows that differ only in holding
  \<^verbatim>\<open>None\<close> or such a string there are stored as the same record, and the record
  stored for a row holds \<^verbatim>\<open>None\<close> in that field when the row holds such a string,
  and in every other field the value of the row as it came.
\<close>

theorem none_normalization:
  assumes "is_none_str v \<or> v = PNone" and "is_none_str w \<or> w = PNone"
  shows "cur_digest (xs @ (k, v) # ys) = cur_digest (xs @ (k, w) # ys)
    \<and> (map_of (dict_zip COLS r) ''fos_nsf_abbrev'' = Some v
         \<and> dict_zip COLS r' = AList.update ''fos_nsf_abbrev'' w (dict_zip COLS r)
       \<longrightarrow> fos_row COLS DATA r' = fos_row COLS DATA r)
    \<and> (fos_row COLS DATA r = Return DATA'
       \<longrightarrow> (\<exists>key na rec. getitem (dict_zip COLS r) ''field_of_science_id'' = Return key
              \<and> getitem (dict_zip COLS r) ''fos_nsf_abbrev'' = Return na
              \<and> map_of DATA' key = Some rec
              \<and> map_of rec ''fos_nsf_abbrev'' = Some (if is_none_str na then PNone else na)
              \<and> (\<forall>f. f \<noteq> ''fos_nsf_abbrev'' \<longrightarrow> map_of rec f = map_of (dict_zip COLS r) f)))"
proof (intro conjI impI)
  show "cur_digest (xs @ (k, v) # ys) = cur_digest (xs @ (k, w) # ys)"
    using cur_normalize_none [OF assms] by (simp add: cur_digest_def)
next
  assume "map_of (dict_zip COLS r) ''fos_nsf_abbrev'' = Some v
         \<and> dict_zip COLS r' = AList.update ''fos_nsf_abbrev'' w (dict_zip COLS r)"
  then show "fos_row COLS DATA r' = fos_row COLS DATA r"
    using fos_row_none [of COLS r v r' w DATA] assms by simp
next
  assume "fos_row COLS DATA r = Return DATA'"
  then show "\<exists>key na rec. getitem (dict_zip COLS r) ''field_of_science_id'' = Return key
              \<and> getitem (dict_zip COLS r) ''fos_nsf_abbrev'' = Return na
              \<and> map_of DATA' key = Some rec
              \<and> map_of rec ''fos_nsf_abbrev'' = Some (if is_none_str na then PNone else na)
              \<and> (\<forall>f. f \<noteq> ''fos_nsf_abbrev'' \<longrightarrow> map_of rec f = map_of (dict_zip COLS r) f)"
    by (rule fos_row_keeps)
qed

lemma none_desc_retrieved:
  "fos_row [''field_of_science_id'', ''field_of_science_desc'', ''fos_nsf_abbrev''] []
       [PInt 1, PStr ''none'', PStr ''NONE'']
     = Return [(PInt 1, [(''field_of_science_id'', PInt 1), (''field_of_science_desc'', PStr ''none''),
                         (''fos_nsf_abbrev'', PNone)])]"
proof -
  have n: "is_none_str (PStr ''NONE'')" by code_simp
  show ?thesis by (simp add: fos_row_def dict_zip_def getitem_def n)
qed

theorem none_normalization_witness:
  "is_none_str (PStr ''NONE'')
   \<and> cur_digest [(''a'', PInt 1), (''b'', PStr ''NONE'')] = cur_digest [(''a'', PInt 1), (''b'', PNone)]
   \<and> map_of (dict_zip [''field_of_science_id'', ''field_of_science_desc'', ''fos_nsf_abbrev'']
                [PInt 1, PStr ''none'', PStr ''NONE'']) ''fos_nsf_abbrev'' = Some (PStr ''NONE'')
   \<and> fos_row [''field_of_science_id'', ''field_of_science_desc'', ''fos_nsf_abbrev''] [] [PInt 1, PStr ''none'', PNone]
       = fos_row [''field_of_science_id'', ''field_of_science_desc'', ''fos_nsf_abbrev''] []
           [PInt 1, PStr ''none'', PStr ''NONE'']
   \<and> fos_row [''field_of_science_id'', ''field_of_science_desc'', ''fos_nsf_abbrev''] []
         [PInt 1, PStr ''none'', PStr ''NONE'']
       = Return [(PInt 1, [(''field_of_science_id'', PInt 1), (''field_of_science_desc'', PStr ''none''),
                           (''fos_nsf_abbrev'', PNone)])]
   \<and> (\<exists>rec.
         map_of [(PInt 1, [(''field_of_science_id'', PInt 1), (''field_of_science_desc'', PStr ''none''),
                           (''fos_nsf_abbrev'', PNone)])] (PInt 1) = Some rec
       \<and> map_of rec ''fos_nsf_abbrev'' = Some PNone
       \<and> map_of rec ''field_of_science_desc'' = Some (PStr ''none''))"
proof -
  let ?C = "[''field_of_science_id'', ''field_of_science_desc'', ''fos_nsf_abbrev'']"
  let ?r = "[PInt 1, PStr ''none'', PStr ''NONE'']"
  let ?r' = "[PInt 1, PStr ''none'', PNone]"
  let ?D = "[(PInt 1, [(''field_of_science_id'', PInt 1), (''field_of_science_desc'', PStr ''none''),
                           (''fos_nsf_abbrev'', PNone)])]"
  have n: "is_none_str (PStr ''NONE'') \<or> PStr ''NONE'' = PNone" "is_none_str PNone \<or> PNone = PNone"
    and n1: "is_none_str (PStr ''NONE'')" by code_simp+
  have z: "dict_zip ?C ?r' = AList.update ''fos_nsf_abbrev'' PNone (dict_zip ?C ?r)"
    by (simp add: dict_zip_def)
  have m: "map_of (dict_zip ?C ?r) ''fos_nsf_abbrev'' = Some (PStr ''NONE'')"
    by (simp add: dict_zip_def)
  have g1: "getitem (dict_zip ?C ?r) ''field_of_science_id'' = Return (PInt 1)"
    and g2: "getitem (dict_zip ?C ?r) ''fos_nsf_abbrev'' = Return (PStr ''NONE'')"
    and g3: "map_of (dict_zip ?C ?r) ''field_of_science_desc'' = Some (PStr ''none'')"
    by (simp_all add: dict_zip_def getitem_def)
  note t = none_normalization [OF n, of "[(''a'', PInt 1)]" "''b''" "[]" ?C ?r ?r' "[]" ?D]
  from t have a: "cur_digest [(''a'', PInt 1), (''b'', PStr ''NONE'')] = cur_digest [(''a'', PInt 1), (''b'', PNone)]"
    by simp
  from t m z have b: "fos_row ?C [] ?r' = fos_row ?C [] ?r" by simp
  note t3 = t [THEN conjunct2, THEN conjunct2, THEN mp, OF none_desc_retrieved]
  from t3 obtain key na rec where
      k: "getitem (dict_zip ?C ?r) ''field_of_science_id'' = Return key"
    and na: "getitem (dict_zip ?C ?r) ''fos_nsf_abbrev'' = Return na"
    and r1: "map_of ?D key = Some rec"
    and r2: "map_of rec ''fos_nsf_abbrev'' = Some (if is_none_str na then PNone else na)"
    and r3: "\<forall>f. f \<noteq> ''fos_nsf_abbrev'' \<longrightarrow> map_of rec f = map_of (dict_zip ?C ?r) f"
    by (elim conjE exE)
  from k g1 have key: "key = PInt 1" by simp
  from na g2 have na': "na = PStr ''NONE''" by simp
  have c1: "map_of ?D (PInt 1) = Some rec" using r1 key by simp
  have c2: "map_of rec ''fos_nsf_abbrev'' = Some PNone" using r2 na' n1 by simp
  have "map_of rec ''field_of_science_desc'' = map_of (dict_zip ?C ?r) ''field_of_science_desc''"
    using r3 by simp
  then have c3: "map_of rec ''field_of_science_desc'' = Some (PStr ''none'')" using g3 by simp
  have c: "\<exists>rec. map_of ?D (PInt 1) = Some rec
       \<and> map_of rec ''fos_nsf_abbrev'' = Some PNone
       \<and> map_of rec ''field_of_science_desc'' = Some (PStr ''none'')"
    by (rule exI [of _ rec], intro conjI) (rule c1 c2 c3)+
  show ?thesis
    by (intro conjI) (rule n1 a m b none_desc_retrieved c)+
qed

text \<open>
  Claim C5, as stated, fails. The empty string is not normalized: a destination record
  with the empty string in a field and one with \<^verbatim>\<open>None\<close> there have different
  digests. And a source row with the string \<^verbatim>\<open>none\<close> in a column other than
  \<^verbatim>\<open>fos_nsf_abbrev\<close> is stored with that string, so its digest differs from the
  digest of the row with \<^verbatim>\<open>None\<close> there.
\<close>

theorem empty_string_digest_counterexample:
  "cur_digest [(''a'', PStr '''')] \<noteq> cur_digest [(''a'', PNone)]
   \<and> fos_Retrieve_Source (QueryRows [''field_of_science_id'', ''field_of_science_desc'', ''fos_nsf_abbrev'']
          [[PInt 1, PStr ''none'', PNone]])
       = (Return [(PInt 1, [(''field_of_science_id'', PInt 1), (''field_of_science_desc'', PStr ''none''),
                            (''fos_nsf_abbrev'', PNone)])], [])
   \<and> fos_Retrieve_Source (QueryRows [''field_of_science_id'', ''field_of_science_desc'', ''fos_nsf_abbrev'']
          [[PInt 1, PNone, PNone]])
       = (Return [(PInt 1, [(''field_of_science_id'', PInt 1), (''field_of_science_desc'', PNone),
                            (''fos_nsf_abbrev'', PNone)])], [])
   \<and> new_digest [(''field_of_science_id'', PInt 1), (''field_of_science_desc'', PStr ''none''),
                   (''fos_nsf_abbrev'', PNone)]
       \<noteq> new_digest [(''field_of_science_id'', PInt 1), (''field_of_science_desc'', PNone),
                      (''fos_nsf_abbrev'', PNone)]"
proof (intro conjI)
  show "cur_digest [(''a'', PStr '''')] \<noteq> cur_digest [(''a'', PNone)]"
    by code_simp
  show "new_digest [(''field_of_science_id'', PInt 1), (''field_of_science_desc'', PStr ''none''),
                   (''fos_nsf_abbrev'', PNone)]
       \<noteq> new_digest [(''field_of_science_id'', PInt 1), (''field_of_science_desc'', PNone),
                      (''fos_nsf_abbrev'', PNone)]"
    by code_simp
qed (simp_all add: fos_Retrieve_Source_def fos_row_def dict_zip_def getitem_def is_none_str_def)

section \<open>Reconciliation in the fields-of-science router\<close>

subsection \<open>The snapshot of the destination\<close>

lemma foldl_update_keys:
  "fst ` set (foldl (\<lambda>d (k, x). AList.update k (f x) d) acc items) = fst ` set acc \<union> fst ` set items"
proof (induction items arbitrary: acc)
  case Nil
  then show ?case by simp
next
  case (Cons a items)
  have "fst ` set (AList.update (fst a) (f (snd a)) acc) = insert (fst a) (fst ` set acc)"
    by (simp add: dom_update)
  then show ?case using Cons.IH [of "AList.update (fst a) (f (snd a)) acc"]
    by (simp add: split_beta)
qed

lemma foldl_update_distinct:
  "distinct (map fst acc) \<Longrightarrow> distinct (map fst (foldl (\<lambda>d (k, x). AList.update k (f x) d) acc items))"
  by (induction items arbitrary: acc) (simp_all add: distinct_update split_beta)

lemma foldl_update_map_of:
  "distinct (map fst items) \<Longrightarrow> fst ` set acc \<inter> fst ` set items = {} \<Longrightarrow>
   map_of (foldl (\<lambda>d (k, x). AList.update k (f x) d) acc items) k
     = (case map_of items k of Some x \<Rightarrow> Some (f x) | None \<Rightarrow> map_of acc k)"
proof (induction items arbitrary: acc)
  case Nil
  then show ?case by simp
next
  case (Cons a items)
  obtain k' x' where a: "a = (k', x')" by (cases a)
  have d: "distinct (map fst items)" and n: "k' \<notin> fst ` set items" using Cons.prems a by auto
  have i: "fst ` set (AList.update k' (f x') acc) \<inter> fst ` set items = {}"
    using Cons.prems n a by (auto simp: dom_update)
  have "map_of items k' = None" using n by (simp add: map_of_eq_None_iff)
  then show ?case
    using Cons.IH [OF d i] a by (auto simp: update_conv' split: option.splits)
qed

lemma curdigest_keys: "fst ` set (fos_curdigest t) = fst ` set t"
  unfolding fos_curdigest_def by (simp add: foldl_update_keys)

lemma curdigest_map_of:
  "distinct (map fst t) \<Longrightarrow> map_of (fos_curdigest t) k = map_option cur_digest (map_of t k)"
  unfolding fos_curdigest_def by (simp add: foldl_update_map_of split: option.splits)

subsection \<open>The two loops of \<^verbatim>\<open>Store_Destination\<close>\<close>

lemma getitem_Return: "getitem d k = Return v \<longleftrightarrow> map_of d k = Some v"
  by (simp add: getitem_def split: option.splits)

lemma save_item_Next:
  assumes "fos_save_item dj cd (k, r) s = (Next, s')"
  shows "(map_of cd k = Some (new_digest r) \<and> s' = s\<lparr>STATS := inc (STATS s) ''Skip''\<rparr>) \<or>
         (map_of cd k \<noteq> Some (new_digest r) \<and>
          (\<exists>fid d. map_of r ''field_of_science_id'' = Some fid \<and> build_fields r fos_fields = Return d \<and>
             s' = s\<lparr>db := AList.update fid (model_to_dict dj fid d) (db s),
                    logger := logger s @ [(DEBUG, ''FOS save field_of_science_id='' @ py_str fid)],
                    STATS := inc (STATS s) ''Update''\<rparr>))"
  using assms
  by (auto simp: fos_save_item_def fos_save_failed_def Let_def getitem_Return
           split: if_splits outcome.splits option.splits)

lemma save_loop_Cons_Next:
  "fos_save_loop dj cd (x # xs) s = (Next, s1) \<Longrightarrow>
   \<exists>s'. fos_save_item dj cd x s = (Next, s') \<and> fos_save_loop dj cd xs s' = (Next, s1)"
  by (auto split: prod.splits flow.splits)

lemma save_loop_ids:
  assumes "fos_save_loop dj cd S s = (Next, s1)"
    and "\<forall>(k, r) \<in> set S. map_of r ''field_of_science_id'' = Some k"
    and "fst ` set cd \<subseteq> fst ` set (db s)"
    and "distinct (map fst (db s))"
  shows "fst ` set (db s1) = fst ` set (db s) \<union> fst ` set S \<and> distinct (map fst (db s1))
         \<and> (ERROR \<in> fst ` set (logger s1) \<longleftrightarrow> ERROR \<in> fst ` set (logger s))"
  using assms
proof (induction S arbitrary: s)
  case Nil
  then show ?case by simp
next
  case (Cons x S)
  obtain k r where x: "x = (k, r)" by (cases x)
  from Cons.prems(1) obtain s' where item: "fos_save_item dj cd (k, r) s = (Next, s')"
    and loop: "fos_save_loop dj cd S s' = (Next, s1)"
    using save_loop_Cons_Next x by blast
  have kr: "map_of r ''field_of_science_id'' = Some k" using Cons.prems(2) x by simp
  have step: "fst ` set (db s') = insert k (fst ` set (db s)) \<and> distinct (map fst (db s'))
              \<and> (ERROR \<in> fst ` set (logger s') \<longleftrightarrow> ERROR \<in> fst ` set (logger s))"
  proof -
    from save_item_Next [OF item] show ?thesis
    proof
      assume a: "map_of cd k = Some (new_digest r) \<and> s' = s\<lparr>STATS := inc (STATS s) ''Skip''\<rparr>"
      then have "k \<in> fst ` set cd" by (metis domI dom_map_of_conv_image_fst)
      then have "k \<in> fst ` set (db s)" using Cons.prems(3) by blast
      then show ?thesis using a Cons.prems(4) by auto
    next
      assume "map_of cd k \<noteq> Some (new_digest r) \<and>
          (\<exists>fid d. map_of r ''field_of_science_id'' = Some fid \<and> build_fields r fos_fields = Return d \<and>
             s' = s\<lparr>db := AList.update fid (model_to_dict dj fid d) (db s),
                    logger := logger s @ [(DEBUG, ''FOS save field_of_science_id='' @ py_str fid)],
                    STATS := inc (STATS s) ''Update''\<rparr>)"
      then obtain d where "s' = s\<lparr>db := AList.update k (model_to_dict dj k d) (db s),
                    logger := logger s @ [(DEBUG, ''FOS save field_of_science_id='' @ py_str k)],
                    STATS := inc (STATS s) ''Update''\<rparr>" using kr by auto
      then show ?thesis using Cons.prems(4) by (simp add: dom_update distinct_update)
    qed
  qed
  have sub: "fst ` set cd \<subseteq> fst ` set (db s')" using step Cons.prems(3) by auto
  have inv: "\<forall>(k, r) \<in> set S. map_of r ''field_of_science_id'' = Some k" using Cons.prems(2) by simp
  from Cons.IH [OF loop inv sub] step show ?case using x by auto
qed

lemma delete_item_logger:
  "ERROR \<in> fst ` set (logger s) \<Longrightarrow> ERROR \<in> fst ` set (logger (fos_delete_item dj me S s k))"
  by (auto simp: fos_delete_item_def split: option.splits)

lemma delete_loop_logger:
  "ERROR \<in> fst ` set (logger s) \<Longrightarrow> ERROR \<in> fst ` set (logger (foldl (fos_delete_item dj me S) s ks))"
  by (induction ks arbitrary: s) (simp_all add: delete_item_logger)

lemma delete_item_ok:
  assumes "ERROR \<notin> fst ` set (logger (fos_delete_item dj me S s k))"
  shows "db (fos_delete_item dj me S s k) = (if map_of S k = None then AList.delete k (db s) else db s)"
  using assms by (auto simp: fos_delete_item_def split: option.splits)

lemma delete_loop_ids:
  assumes "ERROR \<notin> fst ` set (logger (foldl (fos_delete_item dj me S) s ks))"
    and "distinct (map fst (db s))"
  shows "fst ` set (db (foldl (fos_delete_item dj me S) s ks))
           = fst ` set (db s) - {k \<in> set ks. map_of S k = None}
         \<and> distinct (map fst (db (foldl (fos_delete_item dj me S) s ks)))"
  using assms
proof (induction ks arbitrary: s)
  case Nil
  then show ?case by simp
next
  case (Cons k ks)
  let ?s = "fos_delete_item dj me S s k"
  have ne: "ERROR \<notin> fst ` set (logger ?s)"
    using Cons.prems(1) delete_loop_logger [of ?s dj me S ks] by auto
  have dbs: "db ?s = (if map_of S k = None then AList.delete k (db s) else db s)"
    using delete_item_ok [OF ne] .
  have d: "distinct (map fst (db ?s))" using dbs Cons.prems(2) by (simp add: distinct_delete)
  have ids: "fst ` set (db ?s) = fst ` set (db s) - (if map_of S k = None then {k} else {})"
    using dbs by (auto simp: delete_keys simp flip: set_map)
  from Cons.IH [of ?s] Cons.prems(1) d ids show ?case by auto
qed

subsection \<open>The identifiers after a run\<close>

lemma fos_row_Return:
  assumes "fos_row COLS DATA r = Return DATA'"
  shows "\<exists>k rd. map_of rd ''field_of_science_id'' = Some k \<and> DATA' = AList.update k rd DATA"
proof -
  let ?d = "dict_zip COLS r"
  from assms obtain k na where k: "map_of ?d ''field_of_science_id'' = Some k"
    and D: "DATA' = AList.update k (if is_none_str na then AList.update ''fos_nsf_abbrev'' PNone ?d else ?d) DATA"
    by (auto simp: fos_row_def Let_def getitem_def split: option.splits)
  have "map_of (if is_none_str na then AList.update ''fos_nsf_abbrev'' PNone ?d else ?d) ''field_of_science_id'' = Some k"
    using k by (simp add: update_conv')
  with D show ?thesis by blast
qed

lemma keyed_update:
  assumes "keyed S" and "map_of rd ''field_of_science_id'' = Some k"
  shows "keyed (AList.update k rd S)"
proof -
  have d: "distinct (map fst (AList.update k rd S))" using assms(1) by (simp add: keyed_def distinct_update)
  have "\<And>k' r'. (k', r') \<in> set (AList.update k rd S) \<Longrightarrow> map_of r' ''field_of_science_id'' = Some k'"
  proof -
    fix k' r' assume m: "(k', r') \<in> set (AList.update k rd S)"
    then have "map_of (AList.update k rd S) k' = Some r'" using d by simp
    then have "(k' = k \<and> r' = rd) \<or> (k' \<noteq> k \<and> map_of S k' = Some r')"
      by (auto simp: update_conv' split: if_splits)
    then show "map_of r' ''field_of_science_id'' = Some k'"
      using assms by (auto simp: keyed_def dest: map_of_SomeD)
  qed
  with d show ?thesis by (auto simp: keyed_def)
qed

lemma for_rows_keyed:
  "for_rows (fos_row COLS) DATA rs = Return S \<Longrightarrow> keyed DATA \<Longrightarrow> keyed S"
proof (induction rs arbitrary: DATA)
  case Nil
  then show ?case by simp
next
  case (Cons r rs)
  from Cons.prems(1) obtain D' where r: "fos_row COLS DATA r = Return D'"
    and rest: "for_rows (fos_row COLS) D' rs = Return S"
    by (auto split: outcome.splits)
  from fos_row_Return [OF r] Cons.prems(2) have "keyed D'" by (auto intro: keyed_update)
  with Cons.IH rest show ?case by blast
qed

lemma Retrieve_Source_keyed:
  "fos_Retrieve_Source q = (Return S, lg) \<Longrightarrow> keyed S"
  by (auto simp: fos_Retrieve_Source_def keyed_def split: query_result.splits dest!: for_rows_keyed)

lemma save_loop_Ret: "fos_save_loop dj cd S s = (Ret r, s1) \<Longrightarrow> fst r = False"
proof (induction S arbitrary: s)
  case Nil
  then show ?case by simp
next
  case (Cons x S)
  then show ?case
    by (auto simp: fos_save_item_def fos_save_failed_def Let_def
             split: prod.splits flow.splits if_splits outcome.splits option.splits)
qed

lemma Store_Destination_True:
  assumes "fos_Store_Destination dj me S s = (Return (True, m), s')"
  shows "\<exists>s1. fos_save_loop dj (fos_curdigest (db s)) S s = (Next, s1)
            \<and> s' = foldl (fos_delete_item dj me S) s1 (map fst (fos_curdigest (db s))) \<and> m = []"
  using assms
  by (auto simp: fos_Store_Destination_def Let_def split: prod.splits flow.splits dest: save_loop_Ret)

text \<open>
  Claim C1. When the reconciliation of the source snapshot \<open>S\<close>, as \<^verbatim>\<open>Retrieve_Source\<close>
  returned it, completes without error (\<^verbatim>\<open>Store_Destination\<close> returns \<^verbatim>\<open>(True, '')\<close> and
  has logged no error), the identifiers of the destination are exactly those of \<open>S\<close>, each
  with one destination record.
\<close>

theorem fos_destination_identifiers:
  assumes "fos_Retrieve_Source q = (Return S, lg)"
    and "distinct (map fst (db s))"
    and "fos_Store_Destination dj me S s = (Return (True, []), s')"
    and "ERROR \<notin> fst ` set (logger s')"
  shows "fst ` set (db s') = fst ` set S \<and> distinct (map fst (db s')) \<and> distinct (map fst S)"
proof -
  let ?cd = "fos_curdigest (db s)"
  have S: "keyed S" using assms(1) by (rule Retrieve_Source_keyed)
  from Store_Destination_True [OF assms(3)] obtain s1 where
    loop: "fos_save_loop dj ?cd S s = (Next, s1)" and
    s': "s' = foldl (fos_delete_item dj me S) s1 (map fst ?cd)" by blast
  have 1: "fst ` set (db s1) = fst ` set (db s) \<union> fst ` set S" and d1: "distinct (map fst (db s1))"
    using save_loop_ids [OF loop _ _ assms(2)] S by (auto simp: keyed_def curdigest_keys)
  have 2: "fst ` set (db s') = fst ` set (db s1) - {k \<in> set (map fst ?cd). map_of S k = None}"
    and d2: "distinct (map fst (db s'))"
    using delete_loop_ids [OF _ d1, of dj me S "map fst ?cd"] assms(4) s' by auto
  have "set (map fst ?cd) = fst ` set (db s)" using curdigest_keys by simp
  then have "fst ` set (db s') = fst ` set S"
    using 1 2 by (auto simp: map_of_eq_None_iff)
  with d2 S show ?thesis by (simp add: keyed_def)
qed

lemma not_none_strs:
  "\<not> is_none_str (PStr ''PHY'')" "\<not> is_none_str PNone"
  by code_simp+

lemma Retrieve_physics:
  "\<not> is_none_str v \<Longrightarrow> fos_Retrieve_Source (QueryRows fosv_columns [physics v]) = (Return [(PInt 1, physics_dict v)], [])"
  by (simp add: fos_Retrieve_Source_def fos_row_def dict_zip_def fosv_columns_def physics_def
      physics_dict_def getitem_def not_none_strs)

lemma build_physics:
  "build_fields (physics_dict v) fos_fields =
     Return [(''field_of_science_desc'', PStr ''Physics''), (''fos_nsf_id'', PInt 13),
       (''fos_nsf_abbrev'', PStr ''PHY''), (''is_active'', PStr ''Y''), (''fos_source'', PStr ''NSF''),
       (''nsf_directorate_id'', PStr ''None''), (''nsf_directorate_name'', PStr ''MPS''),
       (''nsf_directorate_abbrev'', PStr ''MPS''), (''parent_field_of_science_id'', PNone),
       (''parent_field_of_science_desc'', PNone), (''parent_fos_nsf_id'', PNone),
       (''parent_fos_nsf_abbrev'', PStr (py_str v))]"
  by (simp add: physics_dict_def fosv_columns_def physics_def fos_fields_def getitem_def)

theorem fos_destination_identifiers_witness:
  "fos_Retrieve_Source (QueryRows fosv_columns [physics PNone]) = (Return [(PInt 1, physics_dict PNone)], [])
   \<and> distinct (map fst (db (fresh [chemistry_item])))
   \<and> fst (fos_Store_Destination plain_orm ''fos'' [(PInt 1, physics_dict PNone)] (fresh [chemistry_item]))
       = Return (True, [])
   \<and> ERROR \<notin> fst ` set (logger (snd (fos_Store_Destination plain_orm ''fos'' [(PInt 1, physics_dict PNone)]
                                         (fresh [chemistry_item]))))
   \<and> fst ` set (db (snd (fos_Store_Destination plain_orm ''fos'' [(PInt 1, physics_dict PNone)]
                            (fresh [chemistry_item])))) = {PInt 1}"
proof -
  let ?S = "[(PInt 1, physics_dict PNone)]"
  let ?r = "fos_Store_Destination plain_orm ''fos'' ?S (fresh [chemistry_item])"
  have 1: "fos_Retrieve_Source (QueryRows fosv_columns [physics PNone]) = (Return ?S, [])"
    by (rule Retrieve_physics) (rule not_none_strs)
  have 2: "distinct (map fst (db (fresh [chemistry_item])))" by (simp add: fresh_def)
  have id: "getitem (physics_dict PNone) ''field_of_science_id'' = Return (PInt 1)"
    by (simp add: physics_dict_def fosv_columns_def physics_def getitem_def)
  have 3: "fst ?r = Return (True, [])"
    by (simp add: fos_Store_Destination_def fos_curdigest_def fresh_def chemistry_item_def
        fos_save_item_def build_physics id plain_orm_def Let_def)
  have 4: "ERROR \<notin> fst ` set (logger (snd ?r))"
    by (simp add: fos_Store_Destination_def fos_curdigest_def fresh_def chemistry_item_def
        fos_save_item_def build_physics id plain_orm_def Let_def fos_delete_item_def)
  have "?r = (Return (True, []), snd ?r)" using 3 by (metis prod.collapse)
  from fos_destination_identifiers [OF 1 2 this 4] 1 2 3 4 show ?thesis by simp
qed

section \<open>Unchanged records\<close>

lemma persons_save_item_Next:
  assumes "persons_save_item dj (k, nitem) (s, l) = (Next, s', l')"
  shows "\<exists>pid fs a. pgetitem nitem ''person_id'' = Return pid
      \<and> pbuild_fields nitem persons_fields = Return fs
      \<and> pgetitem nitem ''addresses'' = Return a
      \<and> save_raises dj (pdb s) pid (fs @ [(''addressesJSON'', a)]) = None
      \<and> s' = s\<lparr>pdb := AList.update pid (model_to_dict dj pid (fs @ [(''addressesJSON'', a)])) (pdb s),
               plogger := plogger s @ [(DEBUG, ''Persons save person_id='' @ py_str pid)],
               MyUpdateStat := MyUpdateStat s + 1\<rparr>"
proof -
  from assms obtain pid where pid: "pgetitem nitem ''person_id'' = Return pid"
    by (cases "pgetitem nitem ''person_id''") (simp_all add: persons_save_item_def)
  from assms pid obtain fs where fs: "pbuild_fields nitem persons_fields = Return fs"
    by (cases "pbuild_fields nitem persons_fields") (simp_all add: persons_save_item_def)
  from assms pid fs obtain a where a: "pgetitem nitem ''addresses'' = Return a"
    by (cases "pgetitem nitem ''addresses''") (simp_all add: persons_save_item_def)
  from assms pid fs a have sv: "save_raises dj (pdb s) pid (fs @ [(''addressesJSON'', a)]) = None"
    by (cases "save_raises dj (pdb s) pid (fs @ [(''addressesJSON'', a)])")
       (simp_all add: persons_save_item_def Let_def)
  from assms pid fs a sv
  have s': "s' = s\<lparr>pdb := AList.update pid (model_to_dict dj pid (fs @ [(''addressesJSON'', a)])) (pdb s),
               plogger := plogger s @ [(DEBUG, ''Persons save person_id='' @ py_str pid)],
               MyUpdateStat := MyUpdateStat s + 1\<rparr>"
    by (simp add: persons_save_item_def Let_def)
  have "pgetitem nitem ''person_id'' = Return pid
      \<and> pbuild_fields nitem persons_fields = Return fs
      \<and> pgetitem nitem ''addresses'' = Return a
      \<and> save_raises dj (pdb s) pid (fs @ [(''addressesJSON'', a)]) = None
      \<and> s' = s\<lparr>pdb := AList.update pid (model_to_dict dj pid (fs @ [(''addressesJSON'', a)])) (pdb s),
               plogger := plogger s @ [(DEBUG, ''Persons save person_id='' @ py_str pid)],
               MyUpdateStat := MyUpdateStat s + 1\<rparr>"
    by (intro conjI) (rule pid fs a sv s')+
  then show ?thesis
    by - (rule exI [of _ pid], rule exI [of _ fs], rule exI [of _ a])
qed

lemma cur_add_keeps: "in_cur rn lu cur \<Longrightarrow> in_cur rn lu (cur_add cur item)"
  by (auto simp: in_cur_def cur_add_def Let_def update_conv' split: option.splits)

lemma cur_add_self: "in_cur (py_str (resource_name item)) (py_str (local_username item)) (cur_add cur item)"
  by (auto simp: in_cur_def cur_add_def Let_def update_conv' split: option.splits)

lemma foldl_cur_add_keeps: "in_cur rn lu cur \<Longrightarrow> in_cur rn lu (foldl cur_add cur items)"
  by (induction items arbitrary: cur) (simp_all add: cur_add_keeps)

lemma foldl_cur_add_member:
  "item \<in> set items \<Longrightarrow> in_cur (py_str (resource_name item)) (py_str (local_username item)) (foldl cur_add cur items)"
proof (induction items arbitrary: cur)
  case Nil
  then show ?case by simp
next
  case (Cons x xs)
  show ?case
  proof (cases "item = x")
    case True
    then show ?thesis by (simp add: foldl_cur_add_keeps cur_add_self)
  next
    case False
    with Cons.prems have "item \<in> set xs" by simp
    then show ?thesis by (simp add: Cons.IH)
  qed
qed

lemma users_save_item_in_cur:
  assumes rn: "getitem uitem ''resource_name'' = Return (PStr rn)"
    and un: "getitem uitem ''username'' = Return (PStr un)"
    and c: "in_cur rn un cur"
  shows "users_save_item udj cur (uid, uitem) (us, ul) = (Next, us, ul)"
  using assms
  by (auto simp: users_save_item_def obind_def lookup_str_def in_cur_def split: option.splits)

text \<open>
  Claim C2, amended. In \<^verbatim>\<open>router_accessdb-fos.py\<close> a source record whose digest equals the
  digest of the destination record with its identifier is passed over: nothing is written,
  the counter \<^verbatim>\<open>Skip\<close> goes up by one and the counter \<^verbatim>\<open>Update\<close> stays. In
  \<^verbatim>\<open>route_xdcdb-users.py\<close>, with \<^verbatim>\<open>self.cur\<close> built from the destination, a source record
  whose resource name and user name are those of a destination record is passed over,
  whatever else it holds: the destination, the log and the counter \<^verbatim>\<open>UserMap.Update\<close>
  stay as they are. \<^verbatim>\<open>route_xdcdb-persons.py\<close> has no such test: a pass of its loop that
  goes on to the next record has written the record built from the source record to the
  destination under its \<^verbatim>\<open>person_id\<close>, whatever the destination held, has logged the save
  and has counted an update, never a skip.
\<close>

theorem unchanged_record_skipped:
  "(distinct (map fst (db s0)) \<and> map_of (db s0) new_id = Some xdict \<and> new_digest nitem = cur_digest xdict
      \<longrightarrow> fos_save_item dj (fos_curdigest (db s0)) (new_id, nitem) s
            = (Next, s\<lparr>STATS := (STATS s)(''Skip'' := STATS s ''Skip'' + 1)\<rparr>))
   \<and> (item \<in> set (udb us0)
        \<and> getitem uitem ''resource_name'' = Return (PStr (py_str (resource_name item)))
        \<and> getitem uitem ''username'' = Return (PStr (py_str (local_username item)))
      \<longrightarrow> (\<exists>us'. users_save_item udj (foldl cur_add [] (udb us0)) (uid, uitem) (us, ul) = (Next, us', ul)
             \<and> udb us' = udb us \<and> ulogger us' = ulogger us
             \<and> map_of (stats us') ''UserMap.Update'' = map_of (stats us) ''UserMap.Update''))
   \<and> (persons_save_item pdj (k, pitem) (ps, l) = (Next, ps', l')
      \<longrightarrow> (\<exists>pid fs a. pgetitem pitem ''person_id'' = Return pid
             \<and> pbuild_fields pitem persons_fields = Return fs
             \<and> pgetitem pitem ''addresses'' = Return a
             \<and> pdb ps' = AList.update pid (model_to_dict pdj pid (fs @ [(''addressesJSON'', a)])) (pdb ps)
             \<and> plogger ps' = plogger ps @ [(DEBUG, ''Persons save person_id='' @ py_str pid)]
             \<and> MyUpdateStat ps' = MyUpdateStat ps + 1 \<and> MySkipStat ps' = MySkipStat ps))"
proof (intro conjI impI)
  assume a: "distinct (map fst (db s0)) \<and> map_of (db s0) new_id = Some xdict \<and> new_digest nitem = cur_digest xdict"
  then have "map_of (fos_curdigest (db s0)) new_id = Some (new_digest nitem)"
    by (simp add: curdigest_map_of)
  then show "fos_save_item dj (fos_curdigest (db s0)) (new_id, nitem) s
            = (Next, s\<lparr>STATS := (STATS s)(''Skip'' := STATS s ''Skip'' + 1)\<rparr>)"
    by (simp add: fos_save_item_def inc_def)
next
  assume a: "item \<in> set (udb us0)
        \<and> getitem uitem ''resource_name'' = Return (PStr (py_str (resource_name item)))
        \<and> getitem uitem ''username'' = Return (PStr (py_str (local_username item)))"
  then have "in_cur (py_str (resource_name item)) (py_str (local_username item)) (foldl cur_add [] (udb us0))"
    by (simp add: foldl_cur_add_member)
  with a have "users_save_item udj (foldl cur_add [] (udb us0)) (uid, uitem) (us, ul) = (Next, us, ul)"
    by (simp add: users_save_item_in_cur)
  then have "users_save_item udj (foldl cur_add [] (udb us0)) (uid, uitem) (us, ul) = (Next, us, ul)
             \<and> udb us = udb us \<and> ulogger us = ulogger us
             \<and> map_of (stats us) ''UserMap.Update'' = map_of (stats us) ''UserMap.Update''"
    by simp
  then show "\<exists>us'. users_save_item udj (foldl cur_add [] (udb us0)) (uid, uitem) (us, ul) = (Next, us', ul)
             \<and> udb us' = udb us \<and> ulogger us' = ulogger us
             \<and> map_of (stats us') ''UserMap.Update'' = map_of (stats us) ''UserMap.Update''"
    by - (rule exI [of _ us])
next
  assume "persons_save_item pdj (k, pitem) (ps, l) = (Next, ps', l')"
  from persons_save_item_Next [OF this] obtain pid fs a where
      1: "pgetitem pitem ''person_id'' = Return pid"
    and 2: "pbuild_fields pitem persons_fields = Return fs"
    and 3: "pgetitem pitem ''addresses'' = Return a"
    and 4: "ps' = ps\<lparr>pdb := AList.update pid (model_to_dict pdj pid (fs @ [(''addressesJSON'', a)])) (pdb ps),
               plogger := plogger ps @ [(DEBUG, ''Persons save person_id='' @ py_str pid)],
               MyUpdateStat := MyUpdateStat ps + 1\<rparr>"
    by (elim exE conjE)
  have 5: "pdb ps' = AList.update pid (model_to_dict pdj pid (fs @ [(''addressesJSON'', a)])) (pdb ps)"
    and 6: "plogger ps' = plogger ps @ [(DEBUG, ''Persons save person_id='' @ py_str pid)]"
    and 7: "MyUpdateStat ps' = MyUpdateStat ps + 1" and 8: "MySkipStat ps' = MySkipStat ps"
    by (simp_all add: 4)
  have "pgetitem pitem ''person_id'' = Return pid
             \<and> pbuild_fields pitem persons_fields = Return fs
             \<and> pgetitem pitem ''addresses'' = Return a
             \<and> pdb ps' = AList.update pid (model_to_dict pdj pid (fs @ [(''addressesJSON'', a)])) (pdb ps)
             \<and> plogger ps' = plogger ps @ [(DEBUG, ''Persons save person_id='' @ py_str pid)]
             \<and> MyUpdateStat ps' = MyUpdateStat ps + 1 \<and> MySkipStat ps' = MySkipStat ps"
    by (intro conjI) (rule 1 2 3 5 6 7 8)+
  then show "\<exists>pid fs a. pgetitem pitem ''person_id'' = Return pid
             \<and> pbuild_fields pitem persons_fields = Return fs
             \<and> pgetitem pitem ''addresses'' = Return a
             \<and> pdb ps' = AList.update pid (model_to_dict pdj pid (fs @ [(''addressesJSON'', a)])) (pdb ps)
             \<and> plogger ps' = plogger ps @ [(DEBUG, ''Persons save person_id='' @ py_str pid)]
             \<and> MyUpdateStat ps' = MyUpdateStat ps + 1 \<and> MySkipStat ps' = MySkipStat ps"
    by - (rule exI [of _ pid], rule exI [of _ fs], rule exI [of _ a])
qed

lemma jane_fields:
  "pgetitem (PersonRow jane_row) ''person_id'' = Return (PInt 7)"
  "pbuild_fields (PersonRow jane_row) persons_fields = Return (butlast (tl jane_saved))"
  "pgetitem (PersonRow jane_row) ''addresses'' = Return PNone"
  by (simp_all add: pgetitem_def getitem_def jane_row_def persons_fields_def jane_saved_def)

lemma jane_pass:
  "persons_save_item plain_persons_orm (PInt 7, PersonRow jane_row) (jane_stored, None)
     = (Next, jane_stored\<lparr>MyUpdateStat := 1, plogger := [(DEBUG, ''Persons save person_id=7'')]\<rparr>, Some (PInt 7))"
proof -
  have 7: "str_int 7 = ''7''" by code_simp
  show ?thesis
    by (simp add: persons_save_item_def jane_fields plain_persons_orm_def plain_orm_def jane_stored_def
        jane_saved_def 7)
qed

theorem unchanged_record_skipped_witness:
  "distinct (map fst (db (fresh [(PInt 1, [(''a'', PInt 1)])])))
   \<and> map_of (db (fresh [(PInt 1, [(''a'', PInt 1)])])) (PInt 1) = Some [(''a'', PInt 1)]
   \<and> new_digest [(''a'', PInt 1)] = cur_digest [(''a'', PInt 1)]
   \<and> fos_save_item plain_orm (fos_curdigest (db (fresh [(PInt 1, [(''a'', PInt 1)])]))) (PInt 1, [(''a'', PInt 1)])
         (fresh [(PInt 1, [(''a'', PInt 1)])])
       = (Next, (fresh [(PInt 1, [(''a'', PInt 1)])])\<lparr>STATS := (\<lambda>k. 0)(''Skip'' := 1)\<rparr>)
   \<and> jdoe_item \<in> set (udb \<lparr>udb = [jane_item, jdoe_item], stats = users_run_stats, ulogger = []\<rparr>)
   \<and> getitem jdoe_row ''resource_name'' = Return (PStr (py_str (resource_name jdoe_item)))
   \<and> getitem jdoe_row ''username'' = Return (PStr (py_str (local_username jdoe_item)))
   \<and> users_save_item plain_usermap_orm (foldl cur_add [] [jane_item, jdoe_item]) (''jdstampede'', jdoe_row)
         (\<lparr>udb = [jane_item, jdoe_item], stats = users_run_stats, ulogger = []\<rparr>, None)
       = (Next, \<lparr>udb = [jane_item, jdoe_item], stats = users_run_stats, ulogger = []\<rparr>, None)
   \<and> persons_save_item plain_persons_orm (PInt 7, PersonRow jane_row) (jane_stored, None)
       = (Next, jane_stored\<lparr>MyUpdateStat := 1, plogger := [(DEBUG, ''Persons save person_id=7'')]\<rparr>, Some (PInt 7))
   \<and> pdb (jane_stored\<lparr>MyUpdateStat := 1, plogger := [(DEBUG, ''Persons save person_id=7'')]\<rparr>)
       = AList.update (PInt 7) (model_to_dict plain_persons_orm (PInt 7) (tl jane_saved)) (pdb jane_stored)
   \<and> MyUpdateStat (jane_stored\<lparr>MyUpdateStat := 1, plogger := [(DEBUG, ''Persons save person_id=7'')]\<rparr>)
       = MyUpdateStat jane_stored + 1
   \<and> MySkipStat (jane_stored\<lparr>MyUpdateStat := 1, plogger := [(DEBUG, ''Persons save person_id=7'')]\<rparr>)
       = MySkipStat jane_stored"
proof -
  let ?s = "fresh [(PInt 1, [(''a'', PInt 1)])]"
  let ?u = "\<lparr>udb = [jane_item, jdoe_item], stats = users_run_stats, ulogger = []\<rparr>"
  let ?p' = "jane_stored\<lparr>MyUpdateStat := 1, plogger := [(DEBUG, ''Persons save person_id=7'')]\<rparr>"
  have f1: "distinct (map fst (db ?s)) \<and> map_of (db ?s) (PInt 1) = Some [(''a'', PInt 1)]
            \<and> new_digest [(''a'', PInt 1)] = cur_digest [(''a'', PInt 1)]"
    by (simp add: fresh_def new_digest_def cur_digest_def cur_normalize_def is_none_str_def)
  have u1: "jdoe_item \<in> set (udb ?u)
            \<and> getitem jdoe_row ''resource_name'' = Return (PStr (py_str (resource_name jdoe_item)))
            \<and> getitem jdoe_row ''username'' = Return (PStr (py_str (local_username jdoe_item)))"
    by (simp add: getitem_def jdoe_row_def jdoe_item_def)
  note t = unchanged_record_skipped [of ?s "PInt 1" "[(''a'', PInt 1)]" "[(''a'', PInt 1)]" plain_orm ?s
      jdoe_item ?u jdoe_row plain_usermap_orm "''jdstampede''" ?u None
      plain_persons_orm "PInt 7" "PersonRow jane_row" jane_stored None ?p' "Some (PInt 7)"]
  from t f1 have a: "fos_save_item plain_orm (fos_curdigest (db ?s)) (PInt 1, [(''a'', PInt 1)]) ?s
       = (Next, ?s\<lparr>STATS := (\<lambda>k. 0)(''Skip'' := 1)\<rparr>)"
    by (simp add: fresh_def)
  from t [THEN conjunct2, THEN conjunct1, THEN mp, OF u1] obtain us' where
      b1: "users_save_item plain_usermap_orm (foldl cur_add [] (udb ?u)) (''jdstampede'', jdoe_row) (?u, None)
             = (Next, us', None)"
    and b2: "udb us' = udb ?u" and b3: "ulogger us' = ulogger ?u"
    by (elim exE conjE)
  have b4: "stats us' = stats ?u" using b1
    by (auto simp: users_save_item_def obind_def stats_incr_def Let_def
        split: outcome.splits option.splits bool.splits if_splits)
  have "us' = ?u" using b2 b3 b4 by (cases us') simp
  with b1 have b: "users_save_item plain_usermap_orm (foldl cur_add [] [jane_item, jdoe_item]) (''jdstampede'', jdoe_row)
         (?u, None) = (Next, ?u, None)"
    by simp
  from t [THEN conjunct2, THEN conjunct2, THEN mp, OF jane_pass] obtain pid fs a where
      c1: "pgetitem (PersonRow jane_row) ''person_id'' = Return pid"
    and c2: "pbuild_fields (PersonRow jane_row) persons_fields = Return fs"
    and c3: "pgetitem (PersonRow jane_row) ''addresses'' = Return a"
    and c4: "pdb ?p' = AList.update pid (model_to_dict plain_persons_orm pid (fs @ [(''addressesJSON'', a)])) (pdb jane_stored)"
    and c5: "MyUpdateStat ?p' = MyUpdateStat jane_stored + 1"
    and c6: "MySkipStat ?p' = MySkipStat jane_stored"
    by (elim exE conjE)
  from c1 c2 c3 have "pid = PInt 7" "fs @ [(''addressesJSON'', a)] = tl jane_saved"
    by (simp_all add: jane_fields jane_saved_def)
  with c4 have c: "pdb ?p' = AList.update (PInt 7) (model_to_dict plain_persons_orm (PInt 7) (tl jane_saved)) (pdb jane_stored)"
    by simp
  show ?thesis
    by (intro conjI) (rule f1 [THEN conjunct1] f1 [THEN conjunct2, THEN conjunct1]
        f1 [THEN conjunct2, THEN conjunct2] a u1 [THEN conjunct1] u1 [THEN conjunct2, THEN conjunct1]
        u1 [THEN conjunct2, THEN conjunct2] b jane_pass c c5 c6)+
qed

text \<open>
  Claim C2, as stated, fails for two routers. In \<^verbatim>\<open>route_xdcdb-users.py\<close>, with the counters
  as \<^verbatim>\<open>run\<close> sets them, a run over a source record that is in the destination writes
  nothing but leaves the skip counter at 0. In \<^verbatim>\<open>route_xdcdb-persons.py\<close>, with a
  destination that holds the record that a save of the source record leaves, the pass over
  that source record saves it again and counts an update, in the loop alone and in
  \<^verbatim>\<open>Store_Destination\<close> on what \<^verbatim>\<open>Retrieve_Source\<close> returns; the skip counter stays 0.
\<close>

theorem unchanged_record_rewritten_counterexample:
  "Warehouse_Usermap plain_usermap_orm [(''jdstampede'', jdoe_row)]
       \<lparr>udb = [jdoe_item], stats = users_run_stats, ulogger = []\<rparr>
     = (Return (True, []),
        \<lparr>udb = [jdoe_item],
         stats = [(''UserMap.Update'', 0), (''UserMap.Delete'', 0), (''UserMap.Skip'', 0)],
         ulogger = []\<rparr>)
   \<and> persons_save_item plain_persons_orm (PInt 7, PersonRow jane_row)
         (\<lparr>pdb = [(PInt 7, jane_saved)], MyUpdateStat = 0, MyDeleteStat = 0, MySkipStat = 0, plogger = []\<rparr>, None)
       = (Next,
          \<lparr>pdb = [(PInt 7, jane_saved)], MyUpdateStat = 1, MyDeleteStat = 0, MySkipStat = 0,
           plogger = [(DEBUG, ''Persons save person_id=7'')]\<rparr>,
          Some (PInt 7))
   \<and> persons_Retrieve_Source (QueryRows [''person_id''] []) (QueryRows [''person_id'', ''country''] [])
         (QueryRows [''person_id'', ''Email''] []) jane_person_v
       = (Return [(PInt 7, PersonRow jane_row), (PStr ''addresses'', EmptyDict),
                  (PStr ''citizenships'', Joined PNone), (PStr ''emails'', Joined PNone)], [])
   \<and> persons_Store_Destination plain_persons_orm
         [(PInt 7, PersonRow jane_row), (PStr ''addresses'', EmptyDict),
          (PStr ''citizenships'', Joined PNone), (PStr ''emails'', Joined PNone)]
         \<lparr>pdb = [(PInt 7, jane_saved)], MyUpdateStat = 0, MyDeleteStat = 0, MySkipStat = 0, plogger = []\<rparr>
       = (Raise (KeyError ''person_id''),
          \<lparr>pdb = [(PInt 7, jane_saved)], MyUpdateStat = 1, MyDeleteStat = 0, MySkipStat = 0,
           plogger = [(DEBUG, ''Persons save person_id=7'')]\<rparr>)"
proof (intro conjI)
  show "Warehouse_Usermap plain_usermap_orm [(''jdstampede'', jdoe_row)]
       \<lparr>udb = [jdoe_item], stats = users_run_stats, ulogger = []\<rparr>
     = (Return (True, []),
        \<lparr>udb = [jdoe_item],
         stats = [(''UserMap.Update'', 0), (''UserMap.Delete'', 0), (''UserMap.Skip'', 0)],
         ulogger = []\<rparr>)"
    by (simp add: Warehouse_Usermap_def cur_add_def jdoe_item_def jdoe_row_def users_save_item_def
      getitem_def lookup_str_def obind_def users_delete_item_def users_run_stats_def)
  have p: "persons_save_item plain_persons_orm (PInt 7, PersonRow jane_row)
         (\<lparr>pdb = [(PInt 7, jane_saved)], MyUpdateStat = 0, MyDeleteStat = 0, MySkipStat = 0, plogger = []\<rparr>, None)
       = (Next,
          \<lparr>pdb = [(PInt 7, jane_saved)], MyUpdateStat = 1, MyDeleteStat = 0, MySkipStat = 0,
           plogger = [(DEBUG, ''Persons save person_id=7'')]\<rparr>,
          Some (PInt 7))"
    using jane_pass by (simp add: jane_stored_def)
  show "persons_save_item plain_persons_orm (PInt 7, PersonRow jane_row)
         (\<lparr>pdb = [(PInt 7, jane_saved)], MyUpdateStat = 0, MyDeleteStat = 0, MySkipStat = 0, plogger = []\<rparr>, None)
       = (Next,
          \<lparr>pdb = [(PInt 7, jane_saved)], MyUpdateStat = 1, MyDeleteStat = 0, MySkipStat = 0,
           plogger = [(DEBUG, ''Persons save person_id=7'')]\<rparr>,
          Some (PInt 7))"
    by (rule p)
  show "persons_Retrieve_Source (QueryRows [''person_id''] []) (QueryRows [''person_id'', ''country''] [])
         (QueryRows [''person_id'', ''Email''] []) jane_person_v
       = (Return [(PInt 7, PersonRow jane_row), (PStr ''addresses'', EmptyDict),
                  (PStr ''citizenships'', Joined PNone), (PStr ''emails'', Joined PNone)], [])"
    by (simp add: persons_Retrieve_Source_def run_query_def jane_person_v_def person_row_def
        person_aggregates_def getitem_def dict_zip_def jane_row_def)
  show "persons_Store_Destination plain_persons_orm
         [(PInt 7, PersonRow jane_row), (PStr ''addresses'', EmptyDict),
          (PStr ''citizenships'', Joined PNone), (PStr ''emails'', Joined PNone)]
         \<lparr>pdb = [(PInt 7, jane_saved)], MyUpdateStat = 0, MyDeleteStat = 0, MySkipStat = 0, plogger = []\<rparr>
       = (Raise (KeyError ''person_id''),
          \<lparr>pdb = [(PInt 7, jane_saved)], MyUpdateStat = 1, MyDeleteStat = 0, MySkipStat = 0,
           plogger = [(DEBUG, ''Persons save person_id=7'')]\<rparr>)"
    by (simp add: persons_Store_Destination_def p) (simp add: persons_save_item_def pgetitem_def)
qed

section \<open>Write errors and the run report\<close>





lemma connect_sample:
  "Connect_Source b (\<lambda>c. None) ''info'' ''secret'' ''postgresql://localhost:5432/warehouse''
     = (Return (), [(INFO, ''Connected to PostgreSQL database warehouse as info'')])"
  by (simp add: Connect_Source_def find_chr_def Let_def)

lemma physics_id: "getitem (physics_dict v) ''field_of_science_id'' = Return (PInt 1)"
  by (simp add: physics_dict_def fosv_columns_def physics_def getitem_def)

subsection \<open>The loop over the destination records\<close>





















subsection \<open>The finish report and the source cursor\<close>

lemma fos_Run_shapes:
  "(\<exists>e lg. fos_Run env dest = \<lparr>final = \<lparr>db = dest, STATS = (\<lambda>k. 0), logger = lg\<rparr>, cursor_open = False,
         finish_reports = [], ending = Raise e\<rparr>
       \<and> fst (Connect_Source True (connect env) (SOURCE_DBUSER env) (SOURCE_DBPASS env) (src_uri env)) = Raise e)
   \<or> (\<exists>e s. fos_Run env dest = \<lparr>final = s, cursor_open = True, finish_reports = [], ending = Raise e\<rparr>
       \<and> fst (Connect_Source True (connect env) (SOURCE_DBUSER env) (SOURCE_DBPASS env) (src_uri env)) = Return ())
   \<or> (\<exists>rc m s. fos_Run env dest = \<lparr>final = s, cursor_open = False, finish_reports = [(rc, m)], ending = Return ()\<rparr>
       \<and> fst (Connect_Source True (connect env) (SOURCE_DBUSER env) (SOURCE_DBPASS env) (src_uri env)) = Return ())"
  by (auto simp: fos_Run_def Let_def split: prod.splits outcome.splits)

text \<open>
  Claim C7, amended. A run emits at most one finish report: exactly one when \<^verbatim>\<open>Run\<close>
  returns, and none when the run ends by an exit or an exception. In particular, after a
  query error \<^verbatim>\<open>Retrieve_Source\<close> logs the failed statement and the run ends by
  \<^verbatim>\<open>exit(1)\<close> with no finish report.
\<close>

theorem finish_report_count:
  "(case ending (fos_Run env dest) of
      Return u \<Rightarrow> length (finish_reports (fos_Run env dest)) = 1
    | Raise e \<Rightarrow> finish_reports (fos_Run env dest) = [])
   \<and> (fst (Connect_Source True (connect env) (SOURCE_DBUSER env) (SOURCE_DBPASS env) (src_uri env)) = Return ()
        \<and> fosv env = QueryError pgcode pgerror
      \<longrightarrow> ending (fos_Run env dest) = Raise (SystemExit 1) \<and> finish_reports (fos_Run env dest) = []
          \<and> last (logger (final (fos_Run env dest)))
              = query_failed ''SELECT * from info_services.fosv'' pgcode pgerror)"
proof
  show "case ending (fos_Run env dest) of
      Return u \<Rightarrow> length (finish_reports (fos_Run env dest)) = 1
    | Raise e \<Rightarrow> finish_reports (fos_Run env dest) = []"
    using fos_Run_shapes [of env dest] by (auto split: outcome.splits)
next
  show "fst (Connect_Source True (connect env) (SOURCE_DBUSER env) (SOURCE_DBPASS env) (src_uri env)) = Return ()
        \<and> fosv env = QueryError pgcode pgerror
      \<longrightarrow> ending (fos_Run env dest) = Raise (SystemExit 1) \<and> finish_reports (fos_Run env dest) = []
          \<and> last (logger (final (fos_Run env dest)))
              = query_failed ''SELECT * from info_services.fosv'' pgcode pgerror"
    by (auto simp: fos_Run_def Let_def fos_Retrieve_Source_def split: prod.splits outcome.splits)
qed

text \<open>
  Claim C8, amended. The source cursor is closed when \<^verbatim>\<open>Run\<close> returns, which includes the
  runs where \<^verbatim>\<open>Store_Destination\<close> returns a failure; it is still open at the end exactly
  when \<^verbatim>\<open>Connect_Source\<close> returned and the run then ended by an exit or an exception.
\<close>

theorem cursor_open_iff:
  "cursor_open (fos_Run env dest) =
     (fst (Connect_Source True (connect env) (SOURCE_DBUSER env) (SOURCE_DBPASS env) (src_uri env)) = Return ()
      \<and> ending (fos_Run env dest) \<noteq> Return ())"
  using fos_Run_shapes [of env dest] by auto

text \<open>
  Claim C7, as stated, fails: a query error during source retrieval ends the run with no
  finish report at all.
\<close>

theorem query_error_no_report_counterexample:
  "finish_reports (fos_Run (sample_env (QueryError ''42P01'' ''relation does not exist'') plain_orm) []) = []
   \<and> ending (fos_Run (sample_env (QueryError ''42P01'' ''relation does not exist'') plain_orm) [])
       = Raise (SystemExit 1)"
  by (simp add: fos_Run_def sample_env_def connect_sample fos_Retrieve_Source_def)

text \<open>
  Claim C8, as stated, fails: a query error ends the run by \<^verbatim>\<open>exit(1)\<close> inside
  \<^verbatim>\<open>Retrieve_Source\<close>, before \<^verbatim>\<open>Disconnect_Source\<close>, with the cursor open.
\<close>

theorem query_error_cursor_open_counterexample:
  "cursor_open (fos_Run (sample_env (QueryError ''42P01'' ''relation does not exist'') plain_orm) [])
   \<and> ending (fos_Run (sample_env (QueryError ''42P01'' ''relation does not exist'') plain_orm) [])
       = Raise (SystemExit 1)"
  by (simp add: fos_Run_def sample_env_def connect_sample fos_Retrieve_Source_def)

lemma sample_conn:
  "fst (Connect_Source True (connect (sample_env q dj)) (SOURCE_DBUSER (sample_env q dj))
         (SOURCE_DBPASS (sample_env q dj)) (src_uri (sample_env q dj))) = Return ()"
  by (simp add: sample_env_def connect_sample)

lemma refused_run_ending:
  "ending (fos_Run (sample_env (QueryRows fosv_columns [physics PNone]) refusing_orm) []) = Return ()"
  by (simp add: fos_Run_def sample_env_def connect_sample Retrieve_physics not_none_strs
      fos_Store_Destination_def fos_curdigest_def fos_save_item_def build_physics physics_id
      refusing_orm_def plain_orm_def Let_def fos_save_failed_def)

theorem finish_report_count_witness:
  "ending (fos_Run (sample_env (QueryRows fosv_columns [physics PNone]) refusing_orm) []) = Return ()
   \<and> length (finish_reports (fos_Run (sample_env (QueryRows fosv_columns [physics PNone]) refusing_orm) [])) = 1
   \<and> fst (Connect_Source True (connect (sample_env (QueryError ''42P01'' ''no such view'') plain_orm))
         (SOURCE_DBUSER (sample_env (QueryError ''42P01'' ''no such view'') plain_orm))
         (SOURCE_DBPASS (sample_env (QueryError ''42P01'' ''no such view'') plain_orm))
         (src_uri (sample_env (QueryError ''42P01'' ''no such view'') plain_orm))) = Return ()
   \<and> fosv (sample_env (QueryError ''42P01'' ''no such view'') plain_orm) = QueryError ''42P01'' ''no such view''
   \<and> ending (fos_Run (sample_env (QueryError ''42P01'' ''no such view'') plain_orm) [chemistry_item])
       = Raise (SystemExit 1)
   \<and> finish_reports (fos_Run (sample_env (QueryError ''42P01'' ''no such view'') plain_orm) [chemistry_item]) = []"
proof -
  have q: "fosv (sample_env (QueryError ''42P01'' ''no such view'') plain_orm) = QueryError ''42P01'' ''no such view''"
    by (simp add: sample_env_def)
  show ?thesis
    using finish_report_count [of "sample_env (QueryRows fosv_columns [physics PNone]) refusing_orm" "[]"]
      finish_report_count [of "sample_env (QueryError ''42P01'' ''no such view'') plain_orm" "[chemistry_item]"
        "''42P01''" "''no such view''"]
      refused_run_ending sample_conn q
    by simp
qed

theorem cursor_open_iff_witness:
  "ending (fos_Run (sample_env (QueryRows fosv_columns [physics PNone]) refusing_orm) []) = Return ()
   \<and> \<not> cursor_open (fos_Run (sample_env (QueryRows fosv_columns [physics PNone]) refusing_orm) [])"
  using cursor_open_iff [of "sample_env (QueryRows fosv_columns [physics PNone]) refusing_orm" "[]"]
    refused_run_ending
  by simp

section \<open>The persons router\<close>

subsection \<open>What \<^verbatim>\<open>Retrieve_Source\<close> returns\<close>

lemma for_rows_append:
  "for_rows body acc (xs @ ys) =
     (case for_rows body acc xs of Raise e \<Rightarrow> Raise e | Return acc' \<Rightarrow> for_rows body acc' ys)"
  by (induction xs arbitrary: acc) (auto split: outcome.splits)




lemma person_row_Return:
  assumes "person_row A C E COLS DATA r = Return DATA'"
  shows "\<exists>key. getitem (dict_zip COLS r) ''person_id'' = Return key
      \<and> map_of DATA' (PStr ''addresses'') = Some (fst (person_aggregates A C E key))
      \<and> map_of DATA' (PStr ''citizenships'') = Some (fst (snd (person_aggregates A C E key)))
      \<and> map_of DATA' (PStr ''emails'') = Some (snd (snd (person_aggregates A C E key)))
      \<and> (\<forall>k. k \<notin> literal_keys \<longrightarrow>
            map_of DATA' k = (if k = key then Some (PersonRow (dict_zip COLS r)) else map_of DATA k))"
proof -
  from assms obtain key where key: "getitem (dict_zip COLS r) ''person_id'' = Return key"
    by (auto simp: person_row_def Let_def split: outcome.splits)
  obtain a c e where agg: "person_aggregates A C E key = (a, c, e)" by (cases "person_aggregates A C E key")
  have D: "DATA' = AList.update (PStr ''emails'') e
                 (AList.update (PStr ''citizenships'') c
                   (AList.update (PStr ''addresses'') a
                     (AList.update key (PersonRow (dict_zip COLS r)) DATA)))"
    using assms key agg by (simp add: person_row_def Let_def)
  show ?thesis
    unfolding D using key agg by (simp add: update_conv' literal_keys_def)
qed


lemma person_rows_last:
  assumes "for_rows (person_row A C E COLS) DATA rs = Return S" and "rs \<noteq> []"
  shows "\<exists>key. getitem (dict_zip COLS (last rs)) ''person_id'' = Return key
      \<and> map_of S (PStr ''addresses'') = Some (fst (person_aggregates A C E key))
      \<and> map_of S (PStr ''citizenships'') = Some (fst (snd (person_aggregates A C E key)))
      \<and> map_of S (PStr ''emails'') = Some (snd (snd (person_aggregates A C E key)))"
proof -
  from assms(2) obtain xs r where rs: "rs = xs @ [r]" by (metis rev_exhaust)
  from assms(1) obtain D' where "person_row A C E COLS D' r = Return S"
    by (auto simp: rs for_rows_append split: outcome.splits)
  from person_row_Return [OF this] show ?thesis by (auto simp: rs)
qed

lemma persons_Retrieve_Source_Return:
  assumes "persons_Retrieve_Source a c e (QueryRows COLS rs) = (Return DATA, lg)"
  shows "\<exists>A C E. run_query ''SELECT * from info_services.address_v'' a address_row [] = (Return A, [])
      \<and> run_query ''SELECT * from info_services.citizenship_v'' c (joined_row ''country'') [] = (Return C, [])
      \<and> run_query ''SELECT * from info_services.email_v'' e (joined_row ''Email'') [] = (Return E, [])
      \<and> for_rows (person_row A C E COLS) [] rs = Return DATA"
proof -
  have rq: "\<And>sql q body init x l. run_query sql q body init = (Return x, l) \<Longrightarrow> l = []"
    by (auto simp: run_query_def split: query_result.splits)
  from assms obtain A l1 where 1: "run_query ''SELECT * from info_services.address_v'' a address_row [] = (Return A, l1)"
    by (auto simp: persons_Retrieve_Source_def split: prod.splits outcome.splits)
  from assms 1 obtain C l2 where 2: "run_query ''SELECT * from info_services.citizenship_v'' c (joined_row ''country'') [] = (Return C, l2)"
    by (auto simp: persons_Retrieve_Source_def split: prod.splits outcome.splits)
  from assms 1 2 obtain E l3 where 3: "run_query ''SELECT * from info_services.email_v'' e (joined_row ''Email'') [] = (Return E, l3)"
    by (auto simp: persons_Retrieve_Source_def split: prod.splits outcome.splits)
  from assms 1 2 3 have "run_query ''SELECT * from info_services.person_v'' (QueryRows COLS rs) (person_row A C E) [] = (Return DATA, lg)"
    by (simp add: persons_Retrieve_Source_def)
  then have 4: "for_rows (person_row A C E COLS) [] rs = Return DATA" by (simp add: run_query_def)
  from 1 2 3 4 rq [OF 1] rq [OF 2] rq [OF 3] show ?thesis by blast
qed


lemma sample_persons_retrieved:
  "persons_Retrieve_Source sample_address_v sample_citizenship_v sample_email_v
     (QueryRows sample_person_columns sample_person_rows) = (Return sample_persons, [])"
  by (simp add: persons_Retrieve_Source_def run_query_def sample_address_v_def sample_citizenship_v_def
      sample_email_v_def sample_person_columns_def sample_person_rows_def sample_persons_def
      address_row_def joined_row_def person_row_def person_aggregates_def dict_zip_def getitem_def Let_def)


subsection \<open>What \<^verbatim>\<open>Store_Destination\<close> does with it\<close>

lemma pgetitem_Raise: "pgetitem nitem f = Raise ex \<Longrightarrow> lookup_error ex"
  by (auto simp: pgetitem_def getitem_def split: pvalue.splits option.splits)

lemma pbuild_fields_Raise: "pbuild_fields nitem fs = Raise ex \<Longrightarrow> lookup_error ex"
proof (induction fs)
  case Nil
  then show ?case by simp
next
  case (Cons x fs)
  obtain f w where x: "x = (f, w)" by (cases x)
  show ?case
  proof (cases "pgetitem nitem f")
    case (Raise e)
    with Cons.prems x have "e = ex" by simp
    with Raise show ?thesis by (simp add: pgetitem_Raise)
  next
    case (Return v)
    show ?thesis
    proof (cases "pbuild_fields nitem fs")
      case (Raise e)
      with Cons.prems x Return have "pbuild_fields nitem fs = Raise ex" by simp
      then show ?thesis by (rule Cons.IH)
    next
      case inner: (Return d)
      with Cons.prems x Return show ?thesis by simp
    qed
  qed
qed

lemma save_handler_cases:
  "save_handler l = UnboundLocalError ''person_id'' \<or> save_handler l = AttributeError ''message''"
  by (cases l) (simp_all add: save_handler_def)

lemma persons_save_item_flow:
  assumes "persons_save_item dj x sl = (fl, sl')"
  shows "fl = Next \<or> (\<exists>ex. fl = Exc ex \<and> (lookup_error ex \<or> handler_error dj ex))"
proof -
  obtain k nitem s l where x: "x = (k, nitem)" and sl: "sl = (s, l)" by (cases x, cases sl)
  show ?thesis
  proof (cases "pgetitem nitem ''person_id''")
    case (Raise e)
    with assms x sl have "fl = Exc e" by (simp add: persons_save_item_def)
    moreover have "lookup_error e" using Raise by (rule pgetitem_Raise)
    ultimately show ?thesis by auto
  next
    case pid: (Return pid)
    show ?thesis
    proof (cases "pbuild_fields nitem persons_fields")
      case (Raise e)
      with assms x sl pid have "fl = Exc e" by (simp add: persons_save_item_def)
      moreover have "lookup_error e" using Raise by (rule pbuild_fields_Raise)
      ultimately show ?thesis by auto
    next
      case fs: (Return fs)
      show ?thesis
      proof (cases "pgetitem nitem ''addresses''")
        case (Raise e)
        with assms x sl pid fs have "fl = Exc e" by (simp add: persons_save_item_def)
        moreover have "lookup_error e" using Raise by (rule pgetitem_Raise)
        ultimately show ?thesis by auto
      next
        case a: (Return a)
        show ?thesis
        proof (cases "save_raises dj (pdb s) pid (fs @ [(''addressesJSON'', a)])")
          case None
          with assms x sl pid fs a have "fl = Next" by (simp add: persons_save_item_def Let_def)
          then show ?thesis by simp
        next
          case (Some er)
          with assms x sl pid fs a have f: "fl = Exc (save_handler l)"
            by (simp add: persons_save_item_def Let_def)
          have r: "\<exists>t k f e. save_raises dj t k f = Some e"
            using Some by (intro exI)
          have "handler_error dj (save_handler l)"
            using save_handler_cases [of l] r by simp
          with f show ?thesis by simp
        qed
      qed
    qed
  qed
qed

lemma persons_save_item_not_row:
  assumes "nitem = EmptyDict \<or> (\<exists>l. nitem = AddressList l)"
  shows "\<exists>ex. persons_save_item dj (k, nitem) sl = (Exc ex, sl) \<and> lookup_error ex"
proof -
  obtain s l where sl: "sl = (s, l)" by (cases sl)
  from assms show ?thesis
  proof
    assume "nitem = EmptyDict"
    then have "persons_save_item dj (k, nitem) sl = (Exc (KeyError ''person_id''), sl)"
      by (simp add: persons_save_item_def pgetitem_def sl)
    then show ?thesis by simp
  next
    assume "\<exists>l. nitem = AddressList l"
    then have "persons_save_item dj (k, nitem) sl = (Exc TypeError, sl)"
      by (auto simp: persons_save_item_def pgetitem_def sl)
    then show ?thesis by simp
  qed
qed

lemma persons_save_loop_raises:
  assumes "nitem = EmptyDict \<or> (\<exists>l. nitem = AddressList l)"
  shows "(k, nitem) \<in> set xs \<Longrightarrow>
    \<exists>ex sl'. persons_save_loop dj xs sl = (Exc ex, sl') \<and> (lookup_error ex \<or> handler_error dj ex)"
proof (induction xs arbitrary: sl)
  case Nil
  then show ?case by simp
next
  case (Cons x xs)
  obtain fl sl1 where item: "persons_save_item dj x sl = (fl, sl1)" by (cases "persons_save_item dj x sl")
  from persons_save_item_flow [OF item] show ?case
  proof
    assume n: "fl = Next"
    have "x \<noteq> (k, nitem)"
    proof
      assume "x = (k, nitem)"
      with persons_save_item_not_row [OF assms, of dj k sl] item n show False by simp
    qed
    with Cons.prems have "(k, nitem) \<in> set xs" by simp
    from Cons.IH [OF this, of sl1] show ?thesis using item n by simp
  next
    assume "\<exists>ex. fl = Exc ex \<and> (lookup_error ex \<or> handler_error dj ex)"
    then obtain ex where fl: "fl = Exc ex" and k: "lookup_error ex \<or> handler_error dj ex"
      by (elim exE conjE)
    have "persons_save_loop dj (x # xs) sl = (Exc ex, sl1)" using item fl by simp
    with k have "persons_save_loop dj (x # xs) sl = (Exc ex, sl1) \<and> (lookup_error ex \<or> handler_error dj ex)"
      by (rule conjI [rotated])
    then show ?thesis by - (rule exI [of _ ex], rule exI [of _ sl1])
  qed
qed

lemma retrieved_addresses:
  assumes "persons_Retrieve_Source a c e p = (Return DATA, lg)" and "DATA \<noteq> []"
  shows "\<exists>v. (PStr ''addresses'', v) \<in> set DATA \<and> (v = EmptyDict \<or> (\<exists>l. v = AddressList l))"
proof -
  obtain COLS rs where p: "p = QueryRows COLS rs"
    using assms(1)
    by (cases p) (auto simp: persons_Retrieve_Source_def run_query_def split: prod.splits outcome.splits)
  from persons_Retrieve_Source_Return [OF assms(1) [unfolded p]] obtain A C E where
    loop: "for_rows (person_row A C E COLS) [] rs = Return DATA" by (elim exE conjE)
  have "rs \<noteq> []" using loop assms(2) by auto
  from person_rows_last [OF loop this] obtain key where
    m: "map_of DATA (PStr ''addresses'') = Some (fst (person_aggregates A C E key))"
    by (elim exE conjE)
  let ?v = "fst (person_aggregates A C E key)"
  have 1: "(PStr ''addresses'', ?v) \<in> set DATA" using m by (rule map_of_SomeD)
  have 2: "?v = EmptyDict \<or> (\<exists>l. ?v = AddressList l)"
    by (simp add: person_aggregates_def split: option.splits)
  from 1 2 have "(PStr ''addresses'', ?v) \<in> set DATA \<and> (?v = EmptyDict \<or> (\<exists>l. ?v = AddressList l))"
    by (rule conjI)
  then show ?thesis by - (rule exI [of _ ?v])
qed

lemma persons_Store_Destination_raises:
  assumes "persons_Retrieve_Source a c e p = (Return DATA, lg)" and "DATA \<noteq> []"
  shows "\<exists>ex s'. persons_Store_Destination dj DATA s = (Raise ex, s') \<and> (lookup_error ex \<or> handler_error dj ex)"
proof -
  from retrieved_addresses [OF assms] obtain v where
    1: "(PStr ''addresses'', v) \<in> set DATA" and 2: "v = EmptyDict \<or> (\<exists>l. v = AddressList l)"
    by (elim exE conjE)
  from persons_save_loop_raises [OF 2 1, of dj "(s, None)"] obtain ex sl' where
    l: "persons_save_loop dj DATA (s, None) = (Exc ex, sl')" and k: "lookup_error ex \<or> handler_error dj ex"
    by (elim exE conjE)
  have "persons_Store_Destination dj DATA s = (Raise ex, fst sl')"
    using l by (cases sl') (simp add: persons_Store_Destination_def)
  with k have "persons_Store_Destination dj DATA s = (Raise ex, fst sl') \<and> (lookup_error ex \<or> handler_error dj ex)"
    by (rule conjI [rotated])
  then show ?thesis by - (rule exI [of _ ex], rule exI [of _ "fst sl'"])
qed

text \<open>
  Claim C10, amended. For every non-empty dictionary that \<^verbatim>\<open>Retrieve_Source\<close> of the persons
  router returns, \<^verbatim>\<open>Store_Destination\<close> ends by an exception that no handler catches,
  whatever the destination and its state: a \<^verbatim>\<open>KeyError\<close> or a \<^verbatim>\<open>TypeError\<close> of a subscript
  or, when the destination has rejected a save, the \<^verbatim>\<open>UnboundLocalError\<close> or
  \<^verbatim>\<open>AttributeError\<close> that the handler of the rejected save raises itself. So it never
  returns, and the run makes no finish report and ends by an exception or an exit.
\<close>

theorem persons_store_raises:
  assumes "persons_Retrieve_Source (address_v env) (citizenship_v env) (email_v env) (person_v env)
             = (Return DATA, lg)"
    and "DATA \<noteq> []"
  shows "(\<exists>ex s'. persons_Store_Destination dj DATA s = (Raise ex, s')
            \<and> (lookup_error ex \<or> handler_error dj ex))
       \<and> finish_reports (persons_run env dest) = []
       \<and> (\<exists>ex. ending (persons_run env dest) = Raise ex)"
proof -
  let ?s0 = "\<lparr>pdb = dest, MyUpdateStat = 0, MyDeleteStat = 0, MySkipStat = 0,
                plogger = [(INFO, starting env)]\<rparr>"
  have 1: "\<exists>ex s'. persons_Store_Destination dj DATA s = (Raise ex, s')
            \<and> (lookup_error ex \<or> handler_error dj ex)"
    using assms by (rule persons_Store_Destination_raises)
  have run: "finish_reports (persons_run env dest) = [] \<and> (\<exists>ex. ending (persons_run env dest) = Raise ex)"
  proof (cases "src_scheme (src_uri env) \<noteq> ''postgresql''")
    case True
    then show ?thesis by (simp add: persons_run_def)
  next
    case scheme: False
    obtain r lgc where conn: "Connect_Source False (connect env) (SOURCE_DBUSER env) (SOURCE_DBPASS env)
        (src_uri env) = (r, lgc)"
      by (cases "Connect_Source False (connect env) (SOURCE_DBUSER env) (SOURCE_DBPASS env) (src_uri env)")
    show ?thesis
    proof (cases r)
      case (Raise e)
      with scheme conn show ?thesis by (simp add: persons_run_def)
    next
      case (Return u)
      from persons_Store_Destination_raises [OF assms, of "dest_orm env"
          "?s0\<lparr>plogger := plogger ?s0 @ lgc @ lg\<rparr>"]
      obtain ex s' where "persons_Store_Destination (dest_orm env) DATA (?s0\<lparr>plogger := plogger ?s0 @ lgc @ lg\<rparr>)
          = (Raise ex, s')"
        by (elim exE conjE)
      with scheme conn Return assms(1) show ?thesis by (simp add: persons_run_def)
    qed
  qed
  from 1 run show ?thesis by (rule conjI)
qed

lemma sample_persons_stored:
  "persons_Store_Destination plain_persons_orm sample_persons s = (Raise (KeyError ''portal_login''), s)"
  by (cases s)
     (simp add: persons_Store_Destination_def sample_persons_def persons_save_item_def pgetitem_def
        getitem_def persons_fields_def)

theorem persons_store_raises_witness:
  "persons_Retrieve_Source (address_v sample_persons_env) (citizenship_v sample_persons_env)
       (email_v sample_persons_env) (person_v sample_persons_env) = (Return sample_persons, [])
   \<and> sample_persons \<noteq> []
   \<and> persons_Store_Destination plain_persons_orm sample_persons jane_stored
       = (Raise (KeyError ''portal_login''), jane_stored)
   \<and> (\<exists>ex s'. persons_Store_Destination plain_persons_orm sample_persons jane_stored = (Raise ex, s')
         \<and> (lookup_error ex \<or> handler_error plain_persons_orm ex))
   \<and> finish_reports (persons_run sample_persons_env [(PInt 7, jane_saved)]) = []
   \<and> (\<exists>ex. ending (persons_run sample_persons_env [(PInt 7, jane_saved)]) = Raise ex)"
proof -
  have 1: "persons_Retrieve_Source (address_v sample_persons_env) (citizenship_v sample_persons_env)
       (email_v sample_persons_env) (person_v sample_persons_env) = (Return sample_persons, [])"
    using sample_persons_retrieved by (simp add: sample_persons_env_def)
  have 2: "sample_persons \<noteq> []" by (simp add: sample_persons_def)
  note t = persons_store_raises [OF 1 2, of plain_persons_orm jane_stored "[(PInt 7, jane_saved)]"]
  show ?thesis
    by (intro conjI) (rule 1 2 sample_persons_stored t [THEN conjunct1] t [THEN conjunct2, THEN conjunct1]
        t [THEN conjunct2, THEN conjunct2])+
qed

text \<open>
  Claim C10, as stated, names \<^verbatim>\<open>KeyError\<close> and \<^verbatim>\<open>TypeError\<close> only. With a view
  \<^verbatim>\<open>person_v\<close> that has every column that \<^verbatim>\<open>Store_Destination\<close> reads and a destination
  that rejects the save of the first record, the handler of the rejected save formats
  \<^verbatim>\<open>person_id\<close>, which no pass has assigned yet, and the exception that leaves
  \<^verbatim>\<open>Store_Destination\<close> is \<^verbatim>\<open>UnboundLocalError\<close>.
\<close>

theorem handler_raises_counterexample:
  "persons_Retrieve_Source (QueryRows [''person_id''] []) (QueryRows [''person_id'', ''country''] [])
         (QueryRows [''person_id'', ''Email''] []) jane_person_v
       = (Return [(PInt 7, PersonRow jane_row), (PStr ''addresses'', EmptyDict),
                  (PStr ''citizenships'', Joined PNone), (PStr ''emails'', Joined PNone)], [])
   \<and> persons_Store_Destination refusing_persons_orm
         [(PInt 7, PersonRow jane_row), (PStr ''addresses'', EmptyDict),
          (PStr ''citizenships'', Joined PNone), (PStr ''emails'', Joined PNone)] empty_persons
       = (Raise (UnboundLocalError ''person_id''), empty_persons)
   \<and> UnboundLocalError ''person_id'' \<noteq> TypeError
   \<and> UnboundLocalError ''person_id'' \<noteq> KeyError ''person_id''"
proof (intro conjI)
  show "persons_Retrieve_Source (QueryRows [''person_id''] []) (QueryRows [''person_id'', ''country''] [])
         (QueryRows [''person_id'', ''Email''] []) jane_person_v
       = (Return [(PInt 7, PersonRow jane_row), (PStr ''addresses'', EmptyDict),
                  (PStr ''citizenships'', Joined PNone), (PStr ''emails'', Joined PNone)], [])"
    by (simp add: persons_Retrieve_Source_def run_query_def jane_person_v_def person_row_def
        person_aggregates_def getitem_def dict_zip_def jane_row_def)
  show "persons_Store_Destination refusing_persons_orm
         [(PInt 7, PersonRow jane_row), (PStr ''addresses'', EmptyDict),
          (PStr ''citizenships'', Joined PNone), (PStr ''emails'', Joined PNone)] empty_persons
       = (Raise (UnboundLocalError ''person_id''), empty_persons)"
    by (simp add: persons_Store_Destination_def persons_save_item_def jane_fields refusing_persons_orm_def
        plain_persons_orm_def plain_orm_def save_handler_def)
qed simp_all

section \<open>A second run\<close>

lemma stable_value_iff:
  "stable_value True v \<longleftrightarrow> v = PNone \<or> (\<exists>s. v = PStr s \<and> \<not> is_none_str (PStr s))"
  "stable_value False v \<longleftrightarrow> \<not> is_none_str v"
proof -
  have n: "is_none_str (PStr ''None'')" by code_simp
  show "stable_value True v \<longleftrightarrow> v = PNone \<or> (\<exists>s. v = PStr s \<and> \<not> is_none_str (PStr s))"
    by (cases v) (simp_all add: stable_value_def n)
  show "stable_value False v \<longleftrightarrow> \<not> is_none_str v"
    by (cases v) (simp_all add: stable_value_def is_none_str_def)
qed
















end
